theory Spec2Isabelle
  imports Complex_Main "HOL-Library.AList"
begin

section \<open>Python values used by the connector\<close>

text \<open>
  An aware UTC \<open>datetime\<close> is the number of microseconds since the epoch (Python's
  resolution); comparison and subtraction of aware datetimes act on that instant.
  \<open>timedelta(days=n)\<close> is the corresponding number of microseconds. Instants are taken
  inside the range that \<open>datetime\<close> can represent.
\<close>

type_synonym datetime = int

definition timedelta_days :: "int \<Rightarrow> int" where
  "timedelta_days n = n * 86400000000"

text \<open>
  What \<open>response.json()\<close> returns, and what the untyped \<open>dict\<close> fields of the pydantic
  models hold. A number is a real (Python's \<open>int\<close> and \<open>float\<close> compare by value); an
  object is its list of items in insertion order.
\<close>

datatype json =
    JNull
  | JBool bool
  | JNum real
  | JStr string
  | JArr "json list"
  | JObj "(string \<times> json) list"

text \<open>Python truthiness: \<open>None\<close>, \<open>False\<close>, \<open>0\<close>, \<open>""\<close>, \<open>[]\<close> and \<open>{}\<close> are falsy.\<close>

fun truthy :: "json \<Rightarrow> bool" where
  "truthy JNull = False"
| "truthy (JBool b) = b"
| "truthy (JNum x) = (x \<noteq> 0)"
| "truthy (JStr s) = (s \<noteq> [])"
| "truthy (JArr xs) = (xs \<noteq> [])"
| "truthy (JObj kvs) = (kvs \<noteq> [])"

text \<open>The exceptions that the modelled code raises, itself or through a library call.\<close>

datatype error =
    StevensConnectNotFoundException
  | StevensConnectBadRequestException
  | StevensConnectUnauthorizedException
  | HTTPStatusError nat
  | TransportError
  | JSONDecodeError
  | KeyError string
  | TypeError
  | AttributeError
  | IndexError
  | ValidationError
  | ConfigurationNotFound

text \<open>
  \<open>httpx.HTTPStatusError\<close> (raised by \<open>raise_for_status\<close>) and the transport errors are
  the subclasses of \<open>httpx.HTTPError\<close>; the three \<open>StevensConnect...\<close> exceptions derive
  from \<open>Exception\<close> only.
\<close>

fun is_httpx_HTTPError :: "error \<Rightarrow> bool" where
  "is_httpx_HTTPError (HTTPStatusError s) = True"
| "is_httpx_HTTPError TransportError = True"
| "is_httpx_HTTPError e = False"

fun is_Unauthorized :: "error \<Rightarrow> bool" where
  "is_Unauthorized StevensConnectUnauthorizedException = True"
| "is_Unauthorized e = False"

text \<open>\<open>d[k]\<close> on a dict, \<open>v[k]\<close> and \<open>v.get(k)\<close> on a parsed JSON value with a string key.\<close>

definition dict_getitem :: "(string \<times> json) list \<Rightarrow> string \<Rightarrow> error + json" where
  "dict_getitem d k = (case map_of d k of None \<Rightarrow> Inl (KeyError k) | Some v \<Rightarrow> Inr v)"

definition dict_get :: "(string \<times> json) list \<Rightarrow> string \<Rightarrow> json" where
  "dict_get d k = (case map_of d k of None \<Rightarrow> JNull | Some v \<Rightarrow> v)"

fun py_getitem :: "json \<Rightarrow> string \<Rightarrow> error + json" where
  "py_getitem (JObj d) k = dict_getitem d k"
| "py_getitem v k = Inl TypeError"

fun py_get :: "json \<Rightarrow> string \<Rightarrow> error + json" where
  "py_get (JObj d) k = Inr (dict_get d k)"
| "py_get v k = Inl AttributeError"

text \<open>\<open>v > n\<close> for an \<open>int\<close> \<open>n\<close>: numbers and booleans compare, anything else raises.\<close>

fun py_gt_int :: "json \<Rightarrow> int \<Rightarrow> error + bool" where
  "py_gt_int (JNum x) n = Inr (x > real_of_int n)"
| "py_gt_int (JBool b) n = Inr ((if b then 1 else 0) > n)"
| "py_gt_int v n = Inl TypeError"

text \<open>\<open>str(i)\<close> for an \<open>int\<close>.\<close>

fun nat_digits :: "nat \<Rightarrow> string" where
  "nat_digits n =
     (if n < 10 then [''0123456789'' ! n]
      else nat_digits (n div 10) @ [''0123456789'' ! (n mod 10)])"

definition py_str_int :: "int \<Rightarrow> string" where
  "py_str_int i = (if i < 0 then CHR ''-'' # nat_digits (nat (- i)) else nat_digits (nat i))"

text \<open>
  \<open>s.replace(old, new)\<close>: every non-overlapping occurrence of \<open>old\<close>, found from the left, is
  replaced; with an empty \<open>old\<close>, \<open>new\<close> is put before every character and at the end.
\<close>

function py_replace :: "string \<Rightarrow> string \<Rightarrow> string \<Rightarrow> string" where
  "py_replace s old new =
     (if old = [] then new @ concat (map (\<lambda>c. c # new) s)
      else if s = [] then []
      else if take (length old) s = old then new @ py_replace (drop (length old) s) old new
      else hd s # py_replace (tl s) old new)"
  by pat_completeness auto
termination
  by (relation "measure (\<lambda>(s, old, new). length s)") auto

section \<open>Date windows (handlers.py, \<open>generate_date_pairs\<close>)\<close>

text \<open>\<open>MAX_DAYS_PER_QUERY = 2\<close>.\<close>

definition MAX_DAYS_PER_QUERY :: int where
  "MAX_DAYS_PER_QUERY = 2"

text \<open>
  The generator
  \<^verbatim>\<open>
  def generate_date_pairs(lower_date, upper_date, interval=MAX_DAYS_PER_QUERY):
      while upper_date > lower_date:
          yield max(lower_date, upper_date - timedelta(days=interval)), upper_date
          upper_date -= timedelta(days=interval)
  \<close>
  is the list of the pairs it yields, in the order it yields them. Its only caller leaves
  \<open>interval\<close> at the default, which is what the function below fixes.
\<close>

function generate_date_pairs :: "datetime \<Rightarrow> datetime \<Rightarrow> (datetime \<times> datetime) list" where
  "generate_date_pairs lower_date upper_date =
     (if upper_date > lower_date
      then (max lower_date (upper_date - timedelta_days MAX_DAYS_PER_QUERY), upper_date)
           # generate_date_pairs lower_date (upper_date - timedelta_days MAX_DAYS_PER_QUERY)
      else [])"
  by pat_completeness auto
termination
  by (relation "measure (\<lambda>(l, u). nat (u - l))")
     (auto simp: timedelta_days_def MAX_DAYS_PER_QUERY_def)

declare generate_date_pairs.simps [simp del]
declare py_replace.simps [simp del]
declare nat_digits.simps [simp del]

section \<open>The upstream API client (client.py)\<close>

subsection \<open>Domain model\<close>

record Channel =
  ch_id :: string
  ch_name :: string
  ch_unit_id :: string
  ch_channel_health :: "(string \<times> json) list"

record Sensor =
  sn_id :: string
  sn_name :: string
  sn_channels :: "Channel list"

record Station =
  stn_name :: string
  stn_latitude :: real
  stn_longitude :: real
  stn_sensors :: "Sensor list"

record Project =
  prj_id :: string
  prj_name :: string
  prj_stations :: "Station list"

text \<open>
  A reading's \<open>timestamp\<close> is aware after the validator \<open>parse_time_string\<close> (a naive value
  is labelled UTC), and aware datetimes are equal, and hash alike, when they denote the
  same instant: the field is that instant.
\<close>

record ChannelReading =
  cr_channel_id :: string
  cr_reading :: real
  cr_timestamp :: datetime

record Unit =
  un_id :: int
  un_name :: string
  un_unit :: string

record ChannelReadingsResponse =
  crr_readings :: "(string \<times> ChannelReading list) list"
  crr_paging :: "(string \<times> json) list"

record ProjectResponse =
  pr_projects :: "Project list"
  pr_units :: "Unit list"

subsection \<open>HTTP responses and retries\<close>

text \<open>
  What an \<open>httpx\<close> call gives back: a transport failure (an \<open>httpx.HTTPError\<close> that is not
  an \<open>HTTPStatusError\<close>), or a response with its status code, its body text and the value
  that \<open>response.json()\<close> parses from the body (\<open>None\<close> when the body is not JSON, where
  \<open>json()\<close> raises). \<open>raise_for_status\<close> raises \<open>HTTPStatusError\<close> for every status
  that is not 2xx.
\<close>

record response =
  resp_status_code :: nat
  resp_text :: string
  resp_json :: "json option"

datatype http_outcome = NetworkFailure | Response response

definition is_success :: "response \<Rightarrow> bool" where
  "is_success r = (200 \<le> resp_status_code r \<and> resp_status_code r \<le> 299)"

text \<open>
  \<open>@stamina.retry(on=E, ...)\<close>: the decorated body is run again when it raises an instance
  of \<open>E\<close>, and any other exception, or a result, leaves at once. The waiting times are not
  modelled; the bound on the attempts and on the total time that \<open>stamina\<close> applies is
  the number \<open>again\<close> of attempts still allowed after the current one. Attempt \<open>i\<close> of the
  body is \<open>body i\<close>: the environment may answer each attempt differently.
\<close>

fun stamina_retry :: "(error \<Rightarrow> bool) \<Rightarrow> (nat \<Rightarrow> error + 'a) \<Rightarrow> nat \<Rightarrow> nat \<Rightarrow> error + 'a" where
  "stamina_retry on body 0 i = body i"
| "stamina_retry on body (Suc again) i =
     (case body i of
        Inl e \<Rightarrow> if on e then stamina_retry on body again (Suc i) else Inl e
      | Inr v \<Rightarrow> Inr v)"

subsection \<open>\<open>get_token\<close>\<close>

text \<open>
  One run of the body of \<open>get_token\<close> on the outcome of
  \<open>session.post(url, json=data)\<close>:
  \<^verbatim>\<open>
        try:
            response = await session.post(url, json=data)
            ...
            response.raise_for_status()
            parsed_response = response.json()
            if parsed_response:
                token = parsed_response["data"].get("token")
                return token
            else:
                return response.text
        except httpx.HTTPStatusError as e:
            if e.response.status_code == 400:
                raise StevensConnectBadRequestException(e, "Bad Request")
            elif e.response.status_code == 404:
                raise StevensConnectNotFoundException(e, "User not found")
            raise e
  \<close>
  The value returned is a JSON value (\<open>None\<close> is \<open>JNull\<close>), or the body text as a string.
\<close>

definition get_token_attempt :: "http_outcome \<Rightarrow> error + json" where
  "get_token_attempt out =
     (case out of
        NetworkFailure \<Rightarrow> Inl TransportError
      | Response r \<Rightarrow>
          if \<not> is_success r then
            (if resp_status_code r = 400 then Inl StevensConnectBadRequestException
             else if resp_status_code r = 404 then Inl StevensConnectNotFoundException
             else Inl (HTTPStatusError (resp_status_code r)))
          else
            (case resp_json r of
               None \<Rightarrow> Inl JSONDecodeError
             | Some parsed_response \<Rightarrow>
                 if truthy parsed_response then
                   (case py_getitem parsed_response ''data'' of
                      Inl e \<Rightarrow> Inl e
                    | Inr data \<Rightarrow> py_get data ''token'')
                 else Inr (JStr (resp_text r))))"

text \<open>
  \<open>@stamina.retry(on=httpx.HTTPError, ...)\<close> around it; \<open>post i\<close> is the outcome of the
  request of attempt \<open>i\<close>.
\<close>

definition get_token :: "nat \<Rightarrow> (nat \<Rightarrow> http_outcome) \<Rightarrow> error + json" where
  "get_token again post = stamina_retry is_httpx_HTTPError (\<lambda>i. get_token_attempt (post i)) again 0"

subsection \<open>\<open>get_sensor_readings\<close>\<close>

text \<open>
  The function returns either the body text (a string) or the readings grouped by
  timestamp, a \<open>defaultdict\<close> whose items are kept in the order of first insertion.
\<close>

datatype readings_result =
    RawText string
  | Grouped "(datetime \<times> ChannelReading list) list"

text \<open>
  \<^verbatim>\<open>
        grouped_readings = defaultdict(list)
        for channel_readings in total_readings:
            for reading in channel_readings:
                grouped_readings[reading.timestamp].append(reading)
  \<close>
\<close>

definition append_grouped ::
  "ChannelReading \<Rightarrow> (datetime \<times> ChannelReading list) list \<Rightarrow> (datetime \<times> ChannelReading list) list" where
  "append_grouped reading grouped_readings =
     (case map_of grouped_readings (cr_timestamp reading) of
        None \<Rightarrow> grouped_readings @ [(cr_timestamp reading, [reading])]
      | Some rs \<Rightarrow> AList.update (cr_timestamp reading) (rs @ [reading]) grouped_readings)"

definition group_by_timestamp ::
  "ChannelReading list list \<Rightarrow> (datetime \<times> ChannelReading list) list" where
  "group_by_timestamp total_readings =
     fold (\<lambda>channel_readings grouped. fold append_grouped channel_readings grouped)
       total_readings []"



text \<open>
  One turn of the \<open>while has_data\<close> loop, on the outcome of the request for
  \<open>current_page\<close>: what the turn adds to \<open>total_readings\<close> and whether the loop goes on, or
  the value it returns, or the exception it raises.
  \<^verbatim>\<open>
            try:
                response = await session.get(url, params=params, headers=...)
                ...
                response.raise_for_status()
                parsed_response = response.json()
                if parsed_response:
                    readings = ChannelReadingsResponse.parse_obj(parsed_response.get("data"))
                    total_readings.extend(readings.readings.values())
                    if readings.paging["last_page"] > current_page:
                        current_page += 1
                    else:
                        has_data = False
                else:
                    return response.text
            except httpx.HTTPStatusError as e:
                if e.response.status_code == 401:
                    raise StevensConnectUnauthorizedException(e, "Unauthorized access")
                elif e.response.status_code == 404:
                    raise StevensConnectNotFoundException(e, "User not found")
                raise e
  \<close>
  \<open>ChannelReadingsResponse.parse_obj\<close> is pydantic's validation of the envelope (with its
  parsing of timestamps); it is the parameter \<open>parse_obj\<close>. The turn is written in two
  steps: \<open>decode_page\<close> is the response up to the parsed envelope (or the body text of a
  falsy body), \<open>read_page\<close> adds the test of the paging field.
\<close>

datatype page_step =
    ReturnText string
  | NextPage "ChannelReading list list"
  | LastPage "ChannelReading list list"

definition decode_page ::
  "(json \<Rightarrow> error + ChannelReadingsResponse) \<Rightarrow> http_outcome \<Rightarrow>
   error + (string + ChannelReadingsResponse)" where
  "decode_page parse_obj out =
     (case out of
        NetworkFailure \<Rightarrow> Inl TransportError
      | Response r \<Rightarrow>
          if \<not> is_success r then
            (if resp_status_code r = 401 then Inl StevensConnectUnauthorizedException
             else if resp_status_code r = 404 then Inl StevensConnectNotFoundException
             else Inl (HTTPStatusError (resp_status_code r)))
          else
            (case resp_json r of
               None \<Rightarrow> Inl JSONDecodeError
             | Some parsed_response \<Rightarrow>
                 if truthy parsed_response then
                   (case py_get parsed_response ''data'' of
                      Inl e \<Rightarrow> Inl e
                    | Inr data \<Rightarrow>
                        (case parse_obj data of
                           Inl e \<Rightarrow> Inl e
                         | Inr readings \<Rightarrow> Inr (Inr readings)))
                 else Inr (Inl (resp_text r))))"

definition read_page ::
  "(json \<Rightarrow> error + ChannelReadingsResponse) \<Rightarrow> http_outcome \<Rightarrow> nat \<Rightarrow> error + page_step" where
  "read_page parse_obj out current_page =
     (case decode_page parse_obj out of
        Inl e \<Rightarrow> Inl e
      | Inr (Inl body_text) \<Rightarrow> Inr (ReturnText body_text)
      | Inr (Inr readings) \<Rightarrow>
          (case dict_getitem (crr_paging readings) ''last_page'' of
             Inl e \<Rightarrow> Inl e
           | Inr last_page \<Rightarrow>
               (case py_gt_int last_page (int current_page) of
                  Inl e \<Rightarrow> Inl e
                | Inr True \<Rightarrow> Inr (NextPage (map snd (crr_readings readings)))
                | Inr False \<Rightarrow> Inr (LastPage (map snd (crr_readings readings))))))"

text \<open>
  The loop. It has no bound on the number of pages, so it is a partial function: \<open>None\<close>
  is the run that never leaves the loop. \<open>get i\<close> is the outcome of the request for page
  \<open>i\<close>; \<open>requested\<close> collects the pages requested so far, and is returned with the
  result.
\<close>

partial_function (option) fetch_pages ::
  "(json \<Rightarrow> error + ChannelReadingsResponse) \<Rightarrow> (nat \<Rightarrow> http_outcome) \<Rightarrow> nat \<Rightarrow>
   ChannelReading list list \<Rightarrow> nat list \<Rightarrow> (nat list \<times> (error + readings_result)) option" where
  "fetch_pages parse_obj get current_page total_readings requested =
     (case read_page parse_obj (get current_page) current_page of
        Inl e \<Rightarrow> Some (requested @ [current_page], Inl e)
      | Inr (ReturnText t) \<Rightarrow> Some (requested @ [current_page], Inr (RawText t))
      | Inr (NextPage rs) \<Rightarrow>
          fetch_pages parse_obj get (current_page + 1) (total_readings @ rs)
            (requested @ [current_page])
      | Inr (LastPage rs) \<Rightarrow>
          Some (requested @ [current_page],
                Inr (Grouped (group_by_timestamp (total_readings @ rs)))))"

text \<open>
  One run of the body of \<open>get_sensor_readings\<close>: the credentials are looked up
  (\<open>get_auth_config\<close>, whose outcome is \<open>auth\<close>), a token is fetched with \<open>get_token\<close> (its
  outcome is \<open>token\<close>; an exception of either leaves the function), then the loop starts
  at page 1 with nothing accumulated.
\<close>

definition get_sensor_readings_attempt ::
  "(json \<Rightarrow> error + ChannelReadingsResponse) \<Rightarrow> error + 'auth \<Rightarrow> error + json \<Rightarrow>
   (nat \<Rightarrow> http_outcome) \<Rightarrow> (nat list \<times> (error + readings_result)) option" where
  "get_sensor_readings_attempt parse_obj auth token get =
     (case auth of
        Inl e \<Rightarrow> Some ([], Inl e)
      | Inr a \<Rightarrow>
          (case token of
             Inl e \<Rightarrow> Some ([], Inl e)
           | Inr t \<Rightarrow> fetch_pages parse_obj get 1 [] []))"

text \<open>
  \<open>@stamina.retry(on=StevensConnectUnauthorizedException, ...)\<close> around it. Attempt \<open>i\<close>
  fetches its own token (\<open>post i\<close> answers the attempts of that \<open>get_token\<close>, which may be
  retried \<open>token_again\<close> times) and sends its own page requests (\<open>get i\<close>).
\<close>

fun get_sensor_readings ::
  "(json \<Rightarrow> error + ChannelReadingsResponse) \<Rightarrow> error + 'auth \<Rightarrow> nat \<Rightarrow>
   (nat \<Rightarrow> nat \<Rightarrow> http_outcome) \<Rightarrow> (nat \<Rightarrow> nat \<Rightarrow> http_outcome) \<Rightarrow> nat \<Rightarrow> nat \<Rightarrow>
   (nat list \<times> (error + readings_result)) option" where
  "get_sensor_readings parse_obj auth token_again post get 0 i =
     get_sensor_readings_attempt parse_obj auth (get_token token_again (post i)) (get i)"
| "get_sensor_readings parse_obj auth token_again post get (Suc again) i =
     (case get_sensor_readings_attempt parse_obj auth (get_token token_again (post i)) (get i) of
        None \<Rightarrow> None
      | Some (requested, Inl e) \<Rightarrow>
          if is_Unauthorized e
          then get_sensor_readings parse_obj auth token_again post get again (Suc i)
          else Some (requested, Inl e)
      | Some (requested, Inr v) \<Rightarrow> Some (requested, Inr v))"

section \<open>Configurations (configurations.py)\<close>

text \<open>
  \<open>PullObservationsConfig\<close>: \<open>default_lookback_days\<close> is declared with the default 7 and
  the bounds \<open>ge=1\<close>, \<open>le=15\<close>; \<open>sensor_featured_properties\<close> is optional. Validation gets
  the fields of the stored configuration, \<open>None\<close> for a field that is left out.
\<close>

record PullObservationsConfig =
  default_lookback_days :: int
  sensor_featured_properties :: "string list option"

definition PullObservationsConfig_parse ::
  "int option \<Rightarrow> string list option \<Rightarrow> error + PullObservationsConfig" where
  "PullObservationsConfig_parse lookback featured =
     (case lookback of
        None \<Rightarrow> Inr \<lparr>default_lookback_days = 7, sensor_featured_properties = featured\<rparr>
      | Some n \<Rightarrow>
          if 1 \<le> n \<and> n \<le> 15
          then Inr \<lparr>default_lookback_days = n, sensor_featured_properties = featured\<rparr>
          else Inl ValidationError)"

text \<open>The station dictionary that the handler builds for the sub-task.\<close>

record station_info =
  station_name :: string
  station_longitude :: real
  station_latitude :: real

text \<open>
  \<open>PullSensorObservationsPerStationConfig\<close>:
  \<^verbatim>\<open>
  class PullSensorObservationsPerStationConfig(InternalActionConfiguration):
      start: datetime
      stop: datetime
      project_id: int
      station: dict
      sensor_featured_properties: list
      sensor: Any
      units: Any
  \<close>
  A field declared with a type and no default is required: constructing the model
  without it raises pydantic's \<open>ValidationError\<close>. \<open>project_id\<close> is declared \<open>int\<close> and is
  given the project's \<open>id\<close>, a \<open>str\<close>: pydantic's coercion of a string to an \<open>int\<close> is the
  parameter \<open>int_validator\<close>. The validator of \<open>start\<close> labels a naive value UTC and leaves
  an aware one as it is; the handler passes aware values. The constructor below takes the
  keyword arguments of the one call site, \<open>None\<close> standing for an argument that is not
  passed.
\<close>

record PullSensorObservationsPerStationConfig =
  pc_start :: datetime
  pc_stop :: datetime
  pc_project_id :: int
  pc_station :: station_info
  pc_sensor_featured_properties :: "json list"
  pc_sensor :: Sensor
  pc_units :: "Unit list"

definition PullSensorObservationsPerStationConfig_init ::
  "(string \<Rightarrow> int option) \<Rightarrow> datetime \<Rightarrow> datetime \<Rightarrow> string \<Rightarrow> station_info \<Rightarrow>
   json list option \<Rightarrow> Sensor \<Rightarrow> Unit list \<Rightarrow> error + PullSensorObservationsPerStationConfig" where
  "PullSensorObservationsPerStationConfig_init int_validator start stop project_id station
     featured sensor units =
     (case (int_validator project_id, featured) of
        (Some pid, Some fp) \<Rightarrow>
          Inr \<lparr>pc_start = start, pc_stop = stop, pc_project_id = pid, pc_station = station,
               pc_sensor_featured_properties = fp, pc_sensor = sensor, pc_units = units\<rparr>
      | _ \<Rightarrow> Inl ValidationError)"

section \<open>The handlers (handlers.py)\<close>

subsection \<open>\<open>transform\<close>\<close>

text \<open>
  \<^verbatim>\<open>
    for reading in readings:
        channel_info = next(
            (channel for channel in station_sensor.sensor['channels']
             if channel['id'] == reading.channel_id), None)
        reading_additional = {
            channel_info['name']: f"{reading.reading} {next((unit['unit'] for unit in
                station_sensor.units if str(unit['id']) == channel_info['unit_id']), '')}",
            f"{channel_info['name']} Health": f"{channel_info['channel_health'].get('health')}%"
        }
        readings_additional.update(reading_additional)
  \<close>
  The sensor and the units of the sub-task are the dictionaries of the catalog's \<open>Sensor\<close>
  and \<open>Unit\<close> models, so their keys are the fields of the records. Subscripting the \<open>None\<close>
  that \<open>next\<close> returns for a reading without channel raises \<open>TypeError\<close>. How Python
  prints a float and an arbitrary JSON value are the parameters \<open>str_float\<close> and
  \<open>str_json\<close>. A \<open>dict\<close> is the list of its items in insertion order; \<open>update\<close> replaces
  the value of a key that is there and appends a new key.
\<close>

fun transform_readings ::
  "(real \<Rightarrow> string) \<Rightarrow> (json \<Rightarrow> string) \<Rightarrow> PullSensorObservationsPerStationConfig \<Rightarrow>
   ChannelReading list \<Rightarrow> (string \<times> string) list \<Rightarrow> error + (string \<times> string) list" where
  "transform_readings str_float str_json station_sensor [] readings_additional =
     Inr readings_additional"
| "transform_readings str_float str_json station_sensor (reading # readings) readings_additional =
     (case find (\<lambda>channel. ch_id channel = cr_channel_id reading)
             (sn_channels (pc_sensor station_sensor)) of
        None \<Rightarrow> Inl TypeError
      | Some channel_info \<Rightarrow>
          transform_readings str_float str_json station_sensor readings
            (AList.update (ch_name channel_info @ '' Health'')
               (str_json (dict_get (ch_channel_health channel_info) ''health'') @ ''%'')
               (AList.update (ch_name channel_info)
                  (str_float (cr_reading reading) @ '' '' @
                   (case find (\<lambda>unit. py_str_int (un_id unit) = ch_unit_id channel_info)
                           (pc_units station_sensor) of
                      None \<Rightarrow> [] | Some unit \<Rightarrow> un_unit unit))
                  readings_additional)))"

record observation =
  obs_source_name :: string
  obs_source :: string
  obs_type :: string
  obs_subtype :: string
  obs_recorded_at :: datetime
  obs_location_lat :: real
  obs_location_lon :: real
  obs_additional :: "(string \<times> string) list"

definition transform ::
  "(real \<Rightarrow> string) \<Rightarrow> (json \<Rightarrow> string) \<Rightarrow> PullSensorObservationsPerStationConfig \<Rightarrow>
   datetime \<Rightarrow> ChannelReading list \<Rightarrow> error + observation" where
  "transform str_float str_json station_sensor timestamp readings =
     (case transform_readings str_float str_json station_sensor readings [] of
        Inl e \<Rightarrow> Inl e
      | Inr readings_additional \<Rightarrow>
          Inr \<lparr>obs_source_name =
                 station_name (pc_station station_sensor) @ '' - Sensor '' @ [CHR 0x27] @
                 sn_name (pc_sensor station_sensor) @ [CHR 0x27],
               obs_source = sn_id (pc_sensor station_sensor),
               obs_type = ''stationary-object'',
               obs_subtype = ''weather_station'',
               obs_recorded_at = timestamp,
               obs_location_lat = station_latitude (pc_station station_sensor),
               obs_location_lon = station_longitude (pc_station station_sensor),
               obs_additional = readings_additional\<rparr>)"

text \<open>
  The channels that the readings of a call refer to (a reading refers to the first channel
  of the sensor with its \<open>channel_id\<close>), and their distinct names: what the properties of
  \<open>transform\<close> are stated with.
\<close>

definition reading_channel ::
  "PullSensorObservationsPerStationConfig \<Rightarrow> ChannelReading \<Rightarrow> Channel option" where
  "reading_channel station_sensor reading =
     find (\<lambda>channel. ch_id channel = cr_channel_id reading)
       (sn_channels (pc_sensor station_sensor))"

definition reading_channel_names ::
  "PullSensorObservationsPerStationConfig \<Rightarrow> ChannelReading list \<Rightarrow> string list" where
  "reading_channel_names station_sensor readings =
     remdups (map ch_name (List.map_filter (reading_channel station_sensor) readings))"

subsection \<open>\<open>action_pull_observations\<close>\<close>

text \<open>
  What the handler does to the outside: it reads and writes the state store, and it
  triggers sub-tasks. The store is passed through the handler, and every call is recorded
  in order in a trace. \<open>datetime.now\<close> is called several times; call number \<open>n\<close> of a
  run returns \<open>clock n\<close>.
\<close>

datatype event =
    GetState string string string
  | TriggerAction string string PullSensorObservationsPerStationConfig
  | SetState string string "(string \<times> json) list" string

record world =
  store :: "string \<times> string \<times> string \<Rightarrow> (string \<times> json) list option"
  trace :: "event list"
  ticks :: nat

text \<open>
  What \<open>dateparser.parse\<close> returns (\<open>None\<close> when it cannot parse the string): a datetime
  with its wall-clock fields, counted in microseconds as if they were UTC, and the offset
  of its time zone when it has one. An aware value denotes the instant of its wall clock
  minus its offset. \<open>replace(tzinfo=timezone.utc)\<close> keeps the wall-clock fields and sets
  the zone to UTC. The parser itself is the parameter \<open>dp\<close> of the handler.
\<close>

record parsed_datetime =
  pd_wall :: int
  pd_utcoffset :: "int option"

definition replace_tzinfo_utc :: "parsed_datetime \<Rightarrow> datetime" where
  "replace_tzinfo_utc d = pd_wall d"

text \<open>The surroundings of one run.\<close>

record env =
  integration_id :: string
  clock :: "nat \<Rightarrow> datetime"
  dp :: "string \<Rightarrow> parsed_datetime option"
  int_validator :: "string \<Rightarrow> int option"

text \<open>
  The start of the range of a sensor:
  \<^verbatim>\<open>
      if not device_state:
          start_date = (now - timedelta(days=action_config.default_lookback_days))
      else:
          start_date = dp(device_state.get("updated_at")).replace(tzinfo=timezone.utc)
  \<close>
  \<open>dp\<close> raises \<open>TypeError\<close> on a value that is not a string, and the \<open>None\<close> it returns
  for a string it cannot parse has no \<open>replace\<close>.
\<close>

definition start_date ::
  "(string \<Rightarrow> parsed_datetime option) \<Rightarrow> datetime \<Rightarrow> PullObservationsConfig \<Rightarrow>
   (string \<times> json) list option \<Rightarrow> error + datetime" where
  "start_date parse now action_config device_state =
     (case device_state of
        None \<Rightarrow> Inr (now - timedelta_days (default_lookback_days action_config))
      | Some state \<Rightarrow>
          if state = [] then Inr (now - timedelta_days (default_lookback_days action_config))
          else
            (case dict_get state ''updated_at'' of
               JStr s \<Rightarrow>
                 (case parse s of
                    None \<Rightarrow> Inl AttributeError
                  | Some d \<Rightarrow> Inr (replace_tzinfo_utc d))
             | _ \<Rightarrow> Inl TypeError))"

text \<open>
  The new watermark of a sensor:
  \<^verbatim>\<open>
      latest_time = sensor.channels[0].channel_health["last_reading"].replace(" (UTC)", "")
  \<close>
\<close>

definition latest_time :: "Sensor \<Rightarrow> error + string" where
  "latest_time sensor =
     (case sn_channels sensor of
        [] \<Rightarrow> Inl IndexError
      | channel # _ \<Rightarrow>
          (case dict_getitem (ch_channel_health channel) ''last_reading'' of
             Inl e \<Rightarrow> Inl e
           | Inr (JStr s) \<Rightarrow> Inr (py_replace s '' (UTC)'' [])
           | Inr _ \<Rightarrow> Inl AttributeError))"

text \<open>
  The loop over the windows of a sensor: a configuration is built for each window and a
  sub-task is triggered with it. An exception ends the run where it is raised; what was
  done before stays done.
\<close>

fun dispatch_windows ::
  "env \<Rightarrow> Project \<Rightarrow> station_info \<Rightarrow> Sensor \<Rightarrow> Unit list \<Rightarrow> (datetime \<times> datetime) list \<Rightarrow>
   nat \<Rightarrow> world \<Rightarrow> (error + nat) \<times> world" where
  "dispatch_windows e project station sensor units [] sensors_triggered w =
     (Inr sensors_triggered, w)"
| "dispatch_windows e project station sensor units ((lower, upper) # pairs) sensors_triggered w =
     (case PullSensorObservationsPerStationConfig_init (int_validator e) lower upper
             (prj_id project) station None sensor units of
        Inl err \<Rightarrow> (Inl err, w)
      | Inr parsed_config \<Rightarrow>
          dispatch_windows e project station sensor units pairs (sensors_triggered + 1)
            (w\<lparr>trace := trace w @
                  [TriggerAction (integration_id e) ''pull_sensor_observations_per_station''
                     parsed_config]\<rparr>))"

text \<open>The body of \<open>for sensor in sensors\<close>.\<close>

definition process_sensor ::
  "env \<Rightarrow> PullObservationsConfig \<Rightarrow> datetime \<Rightarrow> Project \<Rightarrow> station_info \<Rightarrow> Unit list \<Rightarrow>
   Sensor \<Rightarrow> nat \<Rightarrow> world \<Rightarrow> (error + nat) \<times> world" where
  "process_sensor e action_config now project station units sensor sensors_triggered w =
     (let key = (integration_id e, ''pull_observations'', sn_id sensor);
          device_state = store w key;
          w1 = w\<lparr>trace := trace w @
                    [GetState (integration_id e) ''pull_observations'' (sn_id sensor)]\<rparr>
      in case start_date (dp e) now action_config device_state of
           Inl err \<Rightarrow> (Inl err, w1)
         | Inr start \<Rightarrow>
             (let stop_date = clock e (ticks w1);
                  w2 = w1\<lparr>ticks := ticks w1 + 1\<rparr>
              in case dispatch_windows e project station sensor units
                        (generate_date_pairs start stop_date) sensors_triggered w2 of
                   (Inl err, w3) \<Rightarrow> (Inl err, w3)
                 | (Inr n, w3) \<Rightarrow>
                     (case latest_time sensor of
                        Inl err \<Rightarrow> (Inl err, w3)
                      | Inr t \<Rightarrow>
                          (Inr n,
                           w3\<lparr>store := (store w3)(key \<mapsto> [(''updated_at'', JStr t)]),
                              trace := trace w3 @
                                [SetState (integration_id e) ''pull_observations''
                                   [(''updated_at'', JStr t)] (sn_id sensor)]\<rparr>))))"

text \<open>A \<open>for\<close> loop whose body may raise: the first exception ends it.\<close>

fun for_each ::
  "('a \<Rightarrow> nat \<Rightarrow> world \<Rightarrow> (error + nat) \<times> world) \<Rightarrow> 'a list \<Rightarrow> nat \<Rightarrow> world \<Rightarrow>
   (error + nat) \<times> world" where
  "for_each body [] n w = (Inr n, w)"
| "for_each body (x # xs) n w =
     (case body x n w of
        (Inl err, w') \<Rightarrow> (Inl err, w')
      | (Inr n', w') \<Rightarrow> for_each body xs n' w')"

text \<open>
  \<^verbatim>\<open>
      sensors = [sensor for sensor in station.sensors
                 if sensor.name not in ["Statistics", "Diagnostic Parameters"]]
  \<close>
\<close>

definition excluded_names :: "string list" where
  "excluded_names = [''Statistics'', ''Diagnostic Parameters'']"

definition process_station ::
  "env \<Rightarrow> PullObservationsConfig \<Rightarrow> datetime \<Rightarrow> Unit list \<Rightarrow> Project \<Rightarrow> Station \<Rightarrow>
   nat \<Rightarrow> world \<Rightarrow> (error + nat) \<times> world" where
  "process_station e action_config now units project station =
     (let station_info = \<lparr>station_name = stn_name station,
                           station_longitude = stn_longitude station,
                           station_latitude = stn_latitude station\<rparr>;
          sensors = filter (\<lambda>sensor. sn_name sensor \<notin> set excluded_names) (stn_sensors station)
      in for_each (process_sensor e action_config now project station_info units) sensors)"

definition process_project ::
  "env \<Rightarrow> PullObservationsConfig \<Rightarrow> datetime \<Rightarrow> Unit list \<Rightarrow> Project \<Rightarrow>
   nat \<Rightarrow> world \<Rightarrow> (error + nat) \<times> world" where
  "process_project e action_config now units project =
     for_each (process_station e action_config now units project) (prj_stations project)"

text \<open>
  The handler. \<open>get_auth_config\<close> and \<open>client.get_projects\<close> are called first; their
  outcomes are \<open>auth\<close> and \<open>projects\<close>. \<open>get_projects\<close> returns the parsed catalog, or the
  body text when the body parses to a falsy value; the handler reads \<open>projects.projects\<close>
  whenever the value is truthy, and a string has no such attribute. The exceptions that
  the handler catches are logged and raised again.
\<close>

datatype projects_result =
    ProjectsText string
  | Projects ProjectResponse

definition action_pull_observations ::
  "env \<Rightarrow> PullObservationsConfig \<Rightarrow> error + 'auth \<Rightarrow> error + projects_result \<Rightarrow> world \<Rightarrow>
   (error + nat) \<times> world" where
  "action_pull_observations e action_config auth projects w =
     (case auth of
        Inl err \<Rightarrow> (Inl err, w)
      | Inr a \<Rightarrow>
          (case projects of
             Inl err \<Rightarrow> (Inl err, w)
           | Inr (ProjectsText t) \<Rightarrow> if t = [] then (Inr 0, w) else (Inl AttributeError, w)
           | Inr (Projects catalog) \<Rightarrow>
               (let now = clock e (ticks w);
                    w1 = w\<lparr>ticks := ticks w + 1\<rparr>
                in for_each (process_project e action_config now (pr_units catalog))
                     (pr_projects catalog) 0 w1)))"


text \<open>
  The validator \<open>parse_time_string\<close> of \<open>ChannelReading\<close> (client.py) and of
  \<open>PullSensorObservationsPerStationConfig\<close> (configurations.py), on a datetime given by its
  wall clock and its offset:
  \<^verbatim>\<open>
        if not v.tzinfo:
            return v.replace(tzinfo=timezone.utc)
        return v
  \<close>
\<close>

definition parse_time_string :: "parsed_datetime \<Rightarrow> parsed_datetime" where
  "parse_time_string v = (if pd_utcoffset v = None then v\<lparr>pd_utcoffset := Some 0\<rparr> else v)"

text \<open>
  The sensor that a call to the outside is made for: a state lookup or write carries the
  sensor's id, a sub-task carries the sensor itself.
\<close>

fun concerns :: "Sensor \<Rightarrow> event \<Rightarrow> bool" where
  "concerns sensor (GetState i a source_id) = (source_id = sn_id sensor)"
| "concerns sensor (TriggerAction i a config) = (pc_sensor config = sensor)"
| "concerns sensor (SetState i a state source_id) = (source_id = sn_id sensor)"

section \<open>Properties of the date windows\<close>

lemma gdp_nil: "upper \<le> lower \<Longrightarrow> generate_date_pairs lower upper = []"
  by (simp add: generate_date_pairs.simps)

lemma gdp_cons:
  "lower < upper \<Longrightarrow> generate_date_pairs lower upper =
     (max lower (upper - timedelta_days MAX_DAYS_PER_QUERY), upper)
     # generate_date_pairs lower (upper - timedelta_days MAX_DAYS_PER_QUERY)"
  by (subst generate_date_pairs.simps) simp

lemma two_days_pos: "0 < timedelta_days MAX_DAYS_PER_QUERY"
  by (simp add: timedelta_days_def MAX_DAYS_PER_QUERY_def)

lemma gdp_window:
  "(a, b) \<in> set (generate_date_pairs lower upper) \<Longrightarrow>
     lower \<le> a \<and> a < b \<and> b \<le> upper \<and> b - a \<le> timedelta_days MAX_DAYS_PER_QUERY"
proof (induction lower upper rule: generate_date_pairs.induct)
  case (1 lower upper)
  show ?case
  proof (cases "lower < upper")
    case False
    with "1.prems" show ?thesis by (simp add: gdp_nil)
  next
    case True
    with "1.prems" have "(a, b) = (max lower (upper - timedelta_days MAX_DAYS_PER_QUERY), upper)
        \<or> (a, b) \<in> set (generate_date_pairs lower (upper - timedelta_days MAX_DAYS_PER_QUERY))"
      by (simp add: gdp_cons)
    then show ?thesis
    proof
      assume "(a, b) = (max lower (upper - timedelta_days MAX_DAYS_PER_QUERY), upper)"
      with True two_days_pos show ?thesis by auto
    next
      assume "(a, b) \<in> set (generate_date_pairs lower (upper - timedelta_days MAX_DAYS_PER_QUERY))"
      with "1.IH" True two_days_pos show ?thesis by force
    qed
  qed
qed

lemma gdp_cover:
  "lower \<le> t \<Longrightarrow> t < upper \<Longrightarrow>
     \<exists>(a, b) \<in> set (generate_date_pairs lower upper). a \<le> t \<and> t < b"
proof (induction lower upper rule: generate_date_pairs.induct)
  case (1 lower upper)
  from "1.prems" have lt: "lower < upper" by simp
  show ?case
  proof (cases "upper - timedelta_days MAX_DAYS_PER_QUERY \<le> t")
    case True
    with "1.prems" lt show ?thesis by (simp add: gdp_cons)
  next
    case False
    with "1.IH" lt "1.prems" have
      "\<exists>(a, b) \<in> set (generate_date_pairs lower (upper - timedelta_days MAX_DAYS_PER_QUERY)). a \<le> t \<and> t < b"
      by simp
    with lt show ?thesis by (simp add: gdp_cons)
  qed
qed

lemma gdp_sorted:
  "sorted_wrt (\<lambda>x y. snd y \<le> fst x) (generate_date_pairs lower upper)"
proof (induction lower upper rule: generate_date_pairs.induct)
  case (1 lower upper)
  show ?case
  proof (cases "lower < upper")
    case False
    then show ?thesis by (simp add: gdp_nil)
  next
    case True
    have "\<forall>y \<in> set (generate_date_pairs lower (upper - timedelta_days MAX_DAYS_PER_QUERY)).
            snd y \<le> max lower (upper - timedelta_days MAX_DAYS_PER_QUERY)"
      using gdp_window by fastforce
    with "1.IH" True show ?thesis by (simp add: gdp_cons)
  qed
qed

lemma gdp_chain:
  "Suc i < length (generate_date_pairs lower upper) \<Longrightarrow>
     fst (generate_date_pairs lower upper ! i) = snd (generate_date_pairs lower upper ! Suc i)"
proof (induction lower upper arbitrary: i rule: generate_date_pairs.induct)
  case (1 lower upper)
  let ?u = "upper - timedelta_days MAX_DAYS_PER_QUERY"
  from "1.prems" have lt: "lower < upper" by (cases "lower < upper") (simp_all add: gdp_nil)
  show ?case
  proof (cases i)
    case 0
    with "1.prems" lt have ne: "generate_date_pairs lower ?u \<noteq> []" by (simp add: gdp_cons)
    then have lt2: "lower < ?u" by (cases "lower < ?u") (simp_all add: gdp_nil)
    then show ?thesis using 0 lt by (simp add: gdp_cons[of lower upper] gdp_cons[of lower ?u])
  next
    case (Suc j)
    with "1.prems" lt have "Suc j < length (generate_date_pairs lower ?u)" by (simp add: gdp_cons)
    with "1.IH" lt have "fst (generate_date_pairs lower ?u ! j) = snd (generate_date_pairs lower ?u ! Suc j)"
      by simp
    with Suc lt show ?thesis by (simp add: gdp_cons[of lower upper])
  qed
qed

lemma gdp_last: "lower < upper \<Longrightarrow> fst (last (generate_date_pairs lower upper)) = lower"
proof (induction lower upper rule: generate_date_pairs.induct)
  case (1 lower upper)
  let ?u = "upper - timedelta_days MAX_DAYS_PER_QUERY"
  show ?case
  proof (cases "lower < ?u")
    case True
    with "1.IH" "1.prems" show ?thesis by (simp add: gdp_cons[of lower upper] gdp_cons[of lower ?u])
  next
    case False
    with "1.prems" show ?thesis by (simp add: gdp_cons[of lower upper] gdp_nil[of ?u lower])
  qed
qed

lemma gdp_example:
  "generate_date_pairs 1704067200000000 1704412800000000 =
     [(1704240000000000, 1704412800000000), (1704067200000000, 1704240000000000)]"
  by (simp add: gdp_cons gdp_nil timedelta_days_def MAX_DAYS_PER_QUERY_def)

text \<open>
  Claim C3. \<open>generate_date_pairs\<close> cuts the range from \<open>lower\<close> to \<open>upper\<close> (start included,
  stop excluded) into windows of at most two days: every window is a non-empty part of the
  range no longer than two days; an instant lies in some window exactly when it lies in the
  range; every later window of the list ends where the window before it starts, so the
  windows come most recent first, the first ends at \<open>upper\<close>, the last starts at \<open>lower\<close>,
  and no two overlap. From 2024-01-01T00:00Z to 2024-01-05T00:00Z the windows are
  2024-01-03 to 2024-01-05, then 2024-01-01 to 2024-01-03.
\<close>

theorem generate_date_pairs_partition:
  "(\<forall>(a, b) \<in> set (generate_date_pairs lower upper).
       lower \<le> a \<and> a < b \<and> b \<le> upper \<and> b - a \<le> timedelta_days 2)
   \<and> (\<forall>t. (\<exists>(a, b) \<in> set (generate_date_pairs lower upper). a \<le> t \<and> t < b)
            = (lower \<le> t \<and> t < upper))
   \<and> sorted_wrt (\<lambda>x y. snd y \<le> fst x) (generate_date_pairs lower upper)
   \<and> (\<forall>i. Suc i < length (generate_date_pairs lower upper) \<longrightarrow>
          fst (generate_date_pairs lower upper ! i) = snd (generate_date_pairs lower upper ! Suc i))
   \<and> (lower < upper \<longrightarrow>
          snd (hd (generate_date_pairs lower upper)) = upper
        \<and> fst (last (generate_date_pairs lower upper)) = lower)
   \<and> (upper \<le> lower \<longrightarrow> generate_date_pairs lower upper = [])
   \<and> generate_date_pairs 1704067200000000 1704412800000000 =
        [(1704240000000000, 1704412800000000), (1704067200000000, 1704240000000000)]"
proof -
  have w: "\<forall>(a, b) \<in> set (generate_date_pairs lower upper).
       lower \<le> a \<and> a < b \<and> b \<le> upper \<and> b - a \<le> timedelta_days 2"
    using gdp_window[of _ _ lower upper] by (auto simp: MAX_DAYS_PER_QUERY_def)
  have c: "\<forall>t. (\<exists>(a, b) \<in> set (generate_date_pairs lower upper). a \<le> t \<and> t < b)
            = (lower \<le> t \<and> t < upper)"
  proof (intro allI iffI)
    fix t
    assume "\<exists>(a, b) \<in> set (generate_date_pairs lower upper). a \<le> t \<and> t < b"
    then obtain a b where "(a, b) \<in> set (generate_date_pairs lower upper)" "a \<le> t" "t < b"
      by auto
    with gdp_window[of a b lower upper] show "lower \<le> t \<and> t < upper" by simp
  next
    fix t
    assume "lower \<le> t \<and> t < upper"
    then show "\<exists>(a, b) \<in> set (generate_date_pairs lower upper). a \<le> t \<and> t < b"
      by (simp add: gdp_cover)
  qed
  have h: "lower < upper \<longrightarrow> snd (hd (generate_date_pairs lower upper)) = upper"
    by (simp add: gdp_cons)
  show ?thesis
    using w c h gdp_sorted[of lower upper] gdp_chain[of _ lower upper] gdp_last[of lower upper]
      gdp_nil[of upper lower] gdp_example
    by blast
qed

theorem generate_date_pairs_partition_witness:
  "generate_date_pairs 1704067200000000 1704412800000000 =
     [(1704240000000000, 1704412800000000), (1704067200000000, 1704240000000000)]
   \<and> (1704240000000000 :: int) - 1704067200000000 \<le> timedelta_days 2
   \<and> (1704412800000000 :: int) - 1704240000000000 \<le> timedelta_days 2
   \<and> (\<exists>(a, b) \<in> set (generate_date_pairs 1704067200000000 1704412800000000).
         a \<le> 1704300000000000 \<and> 1704300000000000 < b)
   \<and> (1704067200000000 :: int) < 1704412800000000
   \<and> snd (hd (generate_date_pairs 1704067200000000 1704412800000000)) = 1704412800000000
   \<and> fst (last (generate_date_pairs 1704067200000000 1704412800000000)) = 1704067200000000
   \<and> Suc 0 < length (generate_date_pairs 1704067200000000 1704412800000000)
   \<and> fst (generate_date_pairs 1704067200000000 1704412800000000 ! 0)
       = snd (generate_date_pairs 1704067200000000 1704412800000000 ! Suc 0)
   \<and> generate_date_pairs 1704412800000000 1704067200000000 = []"
  using generate_date_pairs_partition[of 1704067200000000 1704412800000000]
    generate_date_pairs_partition[of 1704412800000000 1704067200000000]
  by (simp add: timedelta_days_def)

section \<open>Properties of \<open>get_token\<close>\<close>

lemma stamina_retry_shift:
  "stamina_retry on body again (Suc i) = stamina_retry on (\<lambda>j. body (Suc j)) again i"
  by (induction again arbitrary: i) (simp_all split: sum.splits)

lemma stamina_retry_leaves:
  "body i = Inl e \<Longrightarrow> \<not> on e \<Longrightarrow> stamina_retry on body again i = Inl e"
  by (cases again) simp_all

lemma stamina_retry_returns:
  "body i = Inr v \<Longrightarrow> stamina_retry on body again i = Inr v"
  by (cases again) simp_all

lemma stamina_retry_again:
  "body i = Inl e \<Longrightarrow> on e \<Longrightarrow>
     stamina_retry on body (Suc again) i = stamina_retry on body again (Suc i)"
  by simp

lemma stamina_retry_last:
  "\<exists>j. i \<le> j \<and> j \<le> i + again \<and> stamina_retry on body again i = body j"
proof (induction again arbitrary: i)
  case 0
  show ?case by auto
next
  case (Suc again)
  show ?case
  proof (cases "body i")
    case (Inr v)
    then have "stamina_retry on body (Suc again) i = body i" by simp
    then show ?thesis by (intro exI[of _ i]) simp
  next
    case (Inl e)
    show ?thesis
    proof (cases "on e")
      case False
      with Inl have "stamina_retry on body (Suc again) i = body i" by simp
      then show ?thesis by (intro exI[of _ i]) simp
    next
      case True
      from Suc.IH[of "Suc i"] obtain j where
        j: "Suc i \<le> j" "j \<le> Suc i + again" "stamina_retry on body again (Suc i) = body j"
        by blast
      with Inl True have "stamina_retry on body (Suc again) i = body j" by simp
      with j show ?thesis by (intro exI[of _ j]) simp
    qed
  qed
qed

lemma py_get_error: "py_get v k = Inl e \<Longrightarrow> e = AttributeError"
  by (cases v) auto

lemma py_getitem_error: "py_getitem v k = Inl e \<Longrightarrow> e = TypeError \<or> e = KeyError k"
  by (cases v) (auto simp: dict_getitem_def split: option.splits)

lemma get_token_attempt_failure:
  "\<not> is_success r \<Longrightarrow>
     get_token_attempt (Response r) =
       (if resp_status_code r = 400 then Inl StevensConnectBadRequestException
        else if resp_status_code r = 404 then Inl StevensConnectNotFoundException
        else Inl (HTTPStatusError (resp_status_code r)))"
  by (simp add: get_token_attempt_def)

lemma get_token_attempt_truthy:
  "is_success r \<Longrightarrow> resp_json r = Some parsed \<Longrightarrow> truthy parsed \<Longrightarrow>
     get_token_attempt (Response r) =
       (case py_getitem parsed ''data'' of Inl e \<Rightarrow> Inl e | Inr data \<Rightarrow> py_get data ''token'')"
  by (simp add: get_token_attempt_def)

lemma get_token_attempt_falsy:
  "is_success r \<Longrightarrow> resp_json r = Some parsed \<Longrightarrow> \<not> truthy parsed \<Longrightarrow>
     get_token_attempt (Response r) = Inr (JStr (resp_text r))"
  by (simp add: get_token_attempt_def)

lemma get_token_attempt_success_error:
  assumes "is_success r" and "get_token_attempt (Response r) = Inl e"
  shows "e = JSONDecodeError \<or> e = KeyError ''data'' \<or> e = TypeError \<or> e = AttributeError"
proof (cases "resp_json r")
  case None
  with assms show ?thesis by (simp add: get_token_attempt_def)
next
  case (Some parsed)
  show ?thesis
  proof (cases "truthy parsed")
    case False
    with assms Some show ?thesis by (simp add: get_token_attempt_falsy)
  next
    case True
    with assms Some show ?thesis
      using py_get_error py_getitem_error[of parsed "''data''"]
      by (auto simp: get_token_attempt_truthy split: sum.splits)
  qed
qed

lemma get_token_attempt_BadRequest:
  "(get_token_attempt out = Inl StevensConnectBadRequestException)
     = (\<exists>r. out = Response r \<and> resp_status_code r = 400)"
proof (cases out)
  case NetworkFailure
  then show ?thesis by (simp add: get_token_attempt_def)
next
  case (Response r)
  show ?thesis
  proof (cases "is_success r")
    case True
    with get_token_attempt_success_error[of r StevensConnectBadRequestException] Response
    show ?thesis by (auto simp: is_success_def)
  next
    case False
    with Response show ?thesis by (simp add: get_token_attempt_failure)
  qed
qed

lemma get_token_attempt_NotFound:
  "(get_token_attempt out = Inl StevensConnectNotFoundException)
     = (\<exists>r. out = Response r \<and> resp_status_code r = 404)"
proof (cases out)
  case NetworkFailure
  then show ?thesis by (simp add: get_token_attempt_def)
next
  case (Response r)
  show ?thesis
  proof (cases "is_success r")
    case True
    with get_token_attempt_success_error[of r StevensConnectNotFoundException] Response
    show ?thesis by (auto simp: is_success_def)
  next
    case False
    with Response show ?thesis by (simp add: get_token_attempt_failure)
  qed
qed

text \<open>
  Claim C6. One run of the body of \<open>get_token\<close> raises \<open>StevensConnectBadRequestException\<close>
  exactly when the response has status 400, and \<open>StevensConnectNotFoundException\<close> exactly
  when it has status 404. Neither is retried: when the first response has one of these
  statuses, \<open>get_token\<close> raises the exception whatever the number of attempts left, and
  \<open>get_token\<close> raises one of them only if the response of some attempt had that status.
  Any other status that is not a success raises \<open>HTTPStatusError\<close>, which is an
  \<open>httpx.HTTPError\<close>: with an attempt left the request is made again (the run goes on as
  \<open>get_token\<close> on the later responses), and with none left the error leaves \<open>get_token\<close>.
\<close>

theorem get_token_error_classification:
  "(get_token_attempt out = Inl StevensConnectBadRequestException)
      = (\<exists>r. out = Response r \<and> resp_status_code r = 400)
   \<and> (get_token_attempt out = Inl StevensConnectNotFoundException)
      = (\<exists>r. out = Response r \<and> resp_status_code r = 404)
   \<and> (post 0 = Response r \<and> resp_status_code r = 400 \<longrightarrow>
        get_token again post = Inl StevensConnectBadRequestException)
   \<and> (post 0 = Response r \<and> resp_status_code r = 404 \<longrightarrow>
        get_token again post = Inl StevensConnectNotFoundException)
   \<and> (get_token again post = Inl StevensConnectBadRequestException \<longrightarrow>
        (\<exists>i r'. i \<le> again \<and> post i = Response r' \<and> resp_status_code r' = 400))
   \<and> (get_token again post = Inl StevensConnectNotFoundException \<longrightarrow>
        (\<exists>i r'. i \<le> again \<and> post i = Response r' \<and> resp_status_code r' = 404))
   \<and> \<not> is_httpx_HTTPError StevensConnectBadRequestException
   \<and> \<not> is_httpx_HTTPError StevensConnectNotFoundException
   \<and> (post 0 = Response r \<and> \<not> is_success r \<and> resp_status_code r \<noteq> 400
        \<and> resp_status_code r \<noteq> 404 \<longrightarrow>
          get_token_attempt (post 0) = Inl (HTTPStatusError (resp_status_code r))
        \<and> is_httpx_HTTPError (HTTPStatusError (resp_status_code r))
        \<and> get_token 0 post = Inl (HTTPStatusError (resp_status_code r))
        \<and> get_token (Suc again) post = get_token again (\<lambda>i. post (Suc i)))"
proof -
  have bad: "post 0 = Response r \<and> resp_status_code r = 400 \<longrightarrow>
        get_token again post = Inl StevensConnectBadRequestException"
  proof
    assume a: "post 0 = Response r \<and> resp_status_code r = 400"
    then have "get_token_attempt (post 0) = Inl StevensConnectBadRequestException"
      using get_token_attempt_BadRequest[of "post 0"] by simp
    then show "get_token again post = Inl StevensConnectBadRequestException"
      unfolding get_token_def by (intro stamina_retry_leaves) simp_all
  qed
  have nf: "post 0 = Response r \<and> resp_status_code r = 404 \<longrightarrow>
        get_token again post = Inl StevensConnectNotFoundException"
  proof
    assume a: "post 0 = Response r \<and> resp_status_code r = 404"
    then have "get_token_attempt (post 0) = Inl StevensConnectNotFoundException"
      using get_token_attempt_NotFound[of "post 0"] by simp
    then show "get_token again post = Inl StevensConnectNotFoundException"
      unfolding get_token_def by (intro stamina_retry_leaves) simp_all
  qed
  obtain j where j: "j \<le> again"
      "get_token again post = get_token_attempt (post j)"
    using stamina_retry_last[of 0 again is_httpx_HTTPError "\<lambda>i. get_token_attempt (post i)"]
    unfolding get_token_def by auto
  have bad_only: "get_token again post = Inl StevensConnectBadRequestException \<longrightarrow>
        (\<exists>i r'. i \<le> again \<and> post i = Response r' \<and> resp_status_code r' = 400)"
    using j get_token_attempt_BadRequest[of "post j"] by auto
  have nf_only: "get_token again post = Inl StevensConnectNotFoundException \<longrightarrow>
        (\<exists>i r'. i \<le> again \<and> post i = Response r' \<and> resp_status_code r' = 404)"
    using j get_token_attempt_NotFound[of "post j"] by auto
  have other: "post 0 = Response r \<and> \<not> is_success r \<and> resp_status_code r \<noteq> 400
        \<and> resp_status_code r \<noteq> 404 \<longrightarrow>
          get_token_attempt (post 0) = Inl (HTTPStatusError (resp_status_code r))
        \<and> is_httpx_HTTPError (HTTPStatusError (resp_status_code r))
        \<and> get_token 0 post = Inl (HTTPStatusError (resp_status_code r))
        \<and> get_token (Suc again) post = get_token again (\<lambda>i. post (Suc i))"
  proof
    assume a: "post 0 = Response r \<and> \<not> is_success r \<and> resp_status_code r \<noteq> 400
        \<and> resp_status_code r \<noteq> 404"
    then have att: "get_token_attempt (post 0) = Inl (HTTPStatusError (resp_status_code r))"
      by (simp add: get_token_attempt_failure)
    then have "get_token (Suc again) post =
        stamina_retry is_httpx_HTTPError (\<lambda>i. get_token_attempt (post i)) again (Suc 0)"
      by (simp add: get_token_def)
    also have "\<dots> = get_token again (\<lambda>i. post (Suc i))"
      by (simp add: get_token_def stamina_retry_shift)
    finally show "get_token_attempt (post 0) = Inl (HTTPStatusError (resp_status_code r))
        \<and> is_httpx_HTTPError (HTTPStatusError (resp_status_code r))
        \<and> get_token 0 post = Inl (HTTPStatusError (resp_status_code r))
        \<and> get_token (Suc again) post = get_token again (\<lambda>i. post (Suc i))"
      using att by (simp add: get_token_def)
  qed
  show ?thesis
    using bad nf bad_only nf_only other get_token_attempt_BadRequest[of out]
      get_token_attempt_NotFound[of out]
    by simp
qed

theorem get_token_error_classification_witness:
  "get_token 3 (\<lambda>i. Response \<lparr>resp_status_code = 400, resp_text = ''bad'', resp_json = None\<rparr>)
     = Inl StevensConnectBadRequestException
   \<and> get_token 3 (\<lambda>i. Response \<lparr>resp_status_code = 404, resp_text = ''none'', resp_json = None\<rparr>)
     = Inl StevensConnectNotFoundException
   \<and> get_token 0 (\<lambda>i. Response \<lparr>resp_status_code = 503, resp_text = ''busy'', resp_json = None\<rparr>)
     = Inl (HTTPStatusError 503)
   \<and> get_token (Suc 0)
       (\<lambda>i. if i = 0 then Response \<lparr>resp_status_code = 503, resp_text = ''busy'', resp_json = None\<rparr>
             else Response \<lparr>resp_status_code = 400, resp_text = ''bad'', resp_json = None\<rparr>)
     = get_token 0 (\<lambda>i. Response \<lparr>resp_status_code = 400, resp_text = ''bad'', resp_json = None\<rparr>)
   \<and> (\<exists>i r'. i \<le> (3::nat)
         \<and> Response \<lparr>resp_status_code = 400, resp_text = ''bad'', resp_json = None\<rparr> = Response r'
         \<and> resp_status_code r' = 400)"
  using
    get_token_error_classification[of NetworkFailure
      "\<lambda>i. Response \<lparr>resp_status_code = 400, resp_text = ''bad'', resp_json = None\<rparr>"
      "\<lparr>resp_status_code = 400, resp_text = ''bad'', resp_json = None\<rparr>" 3]
    get_token_error_classification[of NetworkFailure
      "\<lambda>i. Response \<lparr>resp_status_code = 404, resp_text = ''none'', resp_json = None\<rparr>"
      "\<lparr>resp_status_code = 404, resp_text = ''none'', resp_json = None\<rparr>" 3]
    get_token_error_classification[of NetworkFailure
      "\<lambda>i. Response \<lparr>resp_status_code = 503, resp_text = ''busy'', resp_json = None\<rparr>"
      "\<lparr>resp_status_code = 503, resp_text = ''busy'', resp_json = None\<rparr>" 0]
    get_token_error_classification[of NetworkFailure
      "\<lambda>i. if i = 0 then Response \<lparr>resp_status_code = 503, resp_text = ''busy'', resp_json = None\<rparr>
             else Response \<lparr>resp_status_code = 400, resp_text = ''bad'', resp_json = None\<rparr>"
      "\<lparr>resp_status_code = 503, resp_text = ''busy'', resp_json = None\<rparr>" 0]
  by (simp add: is_success_def)

text \<open>
  Claim C7. When the response is a success (so that nothing is retried): if the parsed
  body is truthy, \<open>get_token\<close> returns what \<open>parsed_response["data"].get("token")\<close>
  evaluates to, which for an envelope with a \<open>data\<close> object is the \<open>token\<close> field of that
  object (\<open>None\<close> when the object has no such field); if the parsed body is falsy, it
  returns the text of the body.
\<close>

theorem get_token_success:
  assumes "post 0 = Response r" and "is_success r" and "resp_json r = Some parsed"
  shows "(truthy parsed \<longrightarrow>
            get_token again post =
              (case py_getitem parsed ''data'' of
                 Inl e \<Rightarrow> Inl e | Inr data \<Rightarrow> py_get data ''token''))
       \<and> (truthy parsed \<and> parsed = JObj body \<and> map_of body ''data'' = Some (JObj d) \<longrightarrow>
            get_token again post = Inr (dict_get d ''token''))
       \<and> (truthy parsed \<and> parsed = JObj body \<and> map_of body ''data'' = Some (JObj d)
            \<and> map_of d ''token'' = Some t \<longrightarrow> get_token again post = Inr t)
       \<and> (\<not> truthy parsed \<longrightarrow> get_token again post = Inr (JStr (resp_text r)))"
proof -
  have leaves: "get_token again post = get_token_attempt (post 0)"
  proof (cases "get_token_attempt (post 0)")
    case (Inr v)
    then show ?thesis unfolding get_token_def by (simp add: stamina_retry_returns)
  next
    case (Inl e)
    with assms get_token_attempt_success_error[of r e] have "\<not> is_httpx_HTTPError e" by auto
    with Inl show ?thesis unfolding get_token_def
      using stamina_retry_leaves[of "\<lambda>i. get_token_attempt (post i)" 0 e is_httpx_HTTPError again]
      by simp
  qed
  have t: "truthy parsed \<longrightarrow>
            get_token_attempt (post 0) =
              (case py_getitem parsed ''data'' of
                 Inl e \<Rightarrow> Inl e | Inr data \<Rightarrow> py_get data ''token'')"
    using assms by (simp add: get_token_attempt_truthy)
  have f: "\<not> truthy parsed \<longrightarrow> get_token_attempt (post 0) = Inr (JStr (resp_text r))"
    using assms by (simp add: get_token_attempt_falsy)
  show ?thesis using leaves t f by (auto simp: dict_getitem_def dict_get_def)
qed

theorem get_token_success_witness:
  "is_success \<lparr>resp_status_code = 200, resp_text = ''{...}'',
       resp_json = Some (JObj [(''data'', JObj [(''token'', JStr ''abc123'')])])\<rparr>
   \<and> truthy (JObj [(''data'', JObj [(''token'', JStr ''abc123'')])])
   \<and> get_token 2 (\<lambda>i. Response \<lparr>resp_status_code = 200, resp_text = ''{...}'',
       resp_json = Some (JObj [(''data'', JObj [(''token'', JStr ''abc123'')])])\<rparr>)
     = Inr (JStr ''abc123'')
   \<and> is_success \<lparr>resp_status_code = 200, resp_text = ''{}'', resp_json = Some (JObj [])\<rparr>
   \<and> \<not> truthy (JObj [])
   \<and> get_token 2 (\<lambda>i. Response \<lparr>resp_status_code = 200, resp_text = ''{}'',
       resp_json = Some (JObj [])\<rparr>)
     = Inr (JStr ''{}'')"
  using
    get_token_success[where
      post = "\<lambda>i. Response \<lparr>resp_status_code = 200, resp_text = ''{...}'',
         resp_json = Some (JObj [(''data'', JObj [(''token'', JStr ''abc123'')])])\<rparr>"
      and r = "\<lparr>resp_status_code = 200, resp_text = ''{...}'',
         resp_json = Some (JObj [(''data'', JObj [(''token'', JStr ''abc123'')])])\<rparr>"
      and parsed = "JObj [(''data'', JObj [(''token'', JStr ''abc123'')])]"
      and body = "[(''data'', JObj [(''token'', JStr ''abc123'')])]"
      and d = "[(''token'', JStr ''abc123'')]"
      and t = "JStr ''abc123''" and again = 2]
    get_token_success[where
      post = "\<lambda>i. Response \<lparr>resp_status_code = 200, resp_text = ''{}'', resp_json = Some (JObj [])\<rparr>"
      and r = "\<lparr>resp_status_code = 200, resp_text = ''{}'', resp_json = Some (JObj [])\<rparr>"
      and parsed = "JObj []" and again = 2]
  by (simp add: is_success_def dict_getitem_def dict_get_def)

section \<open>Properties of \<open>get_sensor_readings\<close>\<close>

lemma fetch_pages_error:
  "read_page parse_obj (get p) p = Inl e \<Longrightarrow>
     fetch_pages parse_obj get p acc requested = Some (requested @ [p], Inl e)"
  by (subst fetch_pages.simps) simp

lemma fetch_pages_text:
  "read_page parse_obj (get p) p = Inr (ReturnText t) \<Longrightarrow>
     fetch_pages parse_obj get p acc requested = Some (requested @ [p], Inr (RawText t))"
  by (subst fetch_pages.simps) simp

lemma fetch_pages_next:
  "read_page parse_obj (get p) p = Inr (NextPage rs) \<Longrightarrow>
     fetch_pages parse_obj get p acc requested =
       fetch_pages parse_obj get (p + 1) (acc @ rs) (requested @ [p])"
  by (subst fetch_pages.simps) simp

lemma fetch_pages_last:
  "read_page parse_obj (get p) p = Inr (LastPage rs) \<Longrightarrow>
     fetch_pages parse_obj get p acc requested =
       Some (requested @ [p], Inr (Grouped (group_by_timestamp (acc @ rs))))"
  by (subst fetch_pages.simps) simp

lemma fetch_pages_run:
  "(\<And>j. j < n \<Longrightarrow> read_page parse_obj (get (p + j)) (p + j) = Inr (NextPage (rs (p + j)))) \<Longrightarrow>
     fetch_pages parse_obj get p acc requested =
       fetch_pages parse_obj get (p + n) (acc @ concat (map rs [p..<p + n]))
         (requested @ [p..<p + n])"
proof (induction n arbitrary: p acc requested)
  case 0
  show ?case by simp
next
  case (Suc n)
  from Suc.prems[of 0] have first: "read_page parse_obj (get p) p = Inr (NextPage (rs p))"
    by simp
  have rest: "\<And>j. j < n \<Longrightarrow>
      read_page parse_obj (get (Suc p + j)) (Suc p + j) = Inr (NextPage (rs (Suc p + j)))"
    using Suc.prems[of "Suc _"] by simp
  have "fetch_pages parse_obj get p acc requested =
      fetch_pages parse_obj get (Suc p) (acc @ rs p) (requested @ [p])"
    using fetch_pages_next[of parse_obj get p "rs p" acc requested] first by simp
  also have "\<dots> = fetch_pages parse_obj get (Suc p + n)
      ((acc @ rs p) @ concat (map rs [Suc p..<Suc p + n]))
      ((requested @ [p]) @ [Suc p..<Suc p + n])"
    using Suc.IH[of "Suc p" "acc @ rs p" "requested @ [p]"] rest by (simp del: upt_Suc)
  finally show ?case by (simp del: upt_Suc add: upt_conv_Cons)
qed

lemma read_page_envelope:
  "decode_page parse_obj out = Inr (Inr readings) \<Longrightarrow>
   map_of (crr_paging readings) ''last_page'' = Some (JNum x) \<Longrightarrow>
     read_page parse_obj out p =
       (if x > real p then Inr (NextPage (map snd (crr_readings readings)))
        else Inr (LastPage (map snd (crr_readings readings))))"
  by (simp add: read_page_def dict_getitem_def)

lemma read_page_falsy:
  "decode_page parse_obj out = Inr (Inl t) \<Longrightarrow> read_page parse_obj out p = Inr (ReturnText t)"
  by (simp add: read_page_def)

lemma decode_page_falsy:
  "is_success r \<Longrightarrow> resp_json r = Some parsed \<Longrightarrow> \<not> truthy parsed \<Longrightarrow>
     decode_page parse_obj (Response r) = Inr (Inl (resp_text r))"
  by (simp add: decode_page_def)

lemma decode_page_envelope:
  "decode_page parse_obj out = Inr (Inr readings) \<Longrightarrow>
     \<exists>r parsed. out = Response r \<and> is_success r \<and> resp_json r = Some parsed \<and> truthy parsed"
  by (auto simp: decode_page_def split: http_outcome.splits if_splits option.splits sum.splits)













text \<open>What a result says about the pages that were requested.\<close>

lemma read_page_decoded:
  "read_page parse_obj out p = Inr (NextPage rs) \<or> read_page parse_obj out p = Inr (LastPage rs) \<Longrightarrow>
     \<exists>readings. decode_page parse_obj out = Inr (Inr readings)"
  by (auto simp: read_page_def split: sum.splits)

lemma fetch_pages_grouped_decoded:
  assumes "fetch_pages parse_obj get p acc requested = Some y"
  shows "\<forall>req g. y = (req, Inr (Grouped g)) \<longrightarrow>
           (\<forall>q \<in> set requested. \<exists>readings. decode_page parse_obj (get q) = Inr (Inr readings)) \<longrightarrow>
           (\<forall>q \<in> set req. \<exists>readings. decode_page parse_obj (get q) = Inr (Inr readings))"
proof (induct rule: fetch_pages.raw_induct[OF _ assms])
  case (1 f parse_obj get current_page total_readings requested y)
  note IH = 1(1) and eq = 1(2)
  show ?case
  proof (cases "read_page parse_obj (get current_page) current_page")
    case (Inl e)
    with eq show ?thesis by auto
  next
    case (Inr step)
    show ?thesis
    proof (cases step)
      case (ReturnText t)
      with Inr eq show ?thesis by auto
    next
      case (NextPage rs)
      with Inr have dec: "\<exists>readings. decode_page parse_obj (get current_page) = Inr (Inr readings)"
        using read_page_decoded[of parse_obj "get current_page" current_page rs] by simp
      from NextPage Inr eq have
        "f parse_obj get (current_page + 1) (total_readings @ rs)
           (requested @ [current_page]) = Some y"
        by simp
      from IH[OF this] dec show ?thesis by auto
    next
      case (LastPage rs)
      with Inr have dec: "\<exists>readings. decode_page parse_obj (get current_page) = Inr (Inr readings)"
        using read_page_decoded[of parse_obj "get current_page" current_page rs] by simp
      from LastPage Inr eq dec show ?thesis by auto
    qed
  qed
qed

lemma get_sensor_readings_attempt_grouped:
  assumes "get_sensor_readings_attempt parse_obj auth token get = Some (req, Inr (Grouped g))"
  shows "\<forall>q \<in> set req. \<exists>readings. decode_page parse_obj (get q) = Inr (Inr readings)"
proof -
  from assms have "fetch_pages parse_obj get 1 [] [] = Some (req, Inr (Grouped g))"
    by (auto simp: get_sensor_readings_attempt_def split: sum.splits)
  from fetch_pages_grouped_decoded[OF this] show ?thesis by simp
qed

lemma get_sensor_readings_result:
  "get_sensor_readings parse_obj auth token_again post get again i = Some (req, Inr v) \<Longrightarrow>
     \<exists>j. i \<le> j \<and> j \<le> i + again \<and>
         get_sensor_readings_attempt parse_obj auth (get_token token_again (post j)) (get j)
           = Some (req, Inr v)"
proof (induction again arbitrary: i)
  case 0
  then show ?case by auto
next
  case (Suc again)
  let ?att = "get_sensor_readings_attempt parse_obj auth (get_token token_again (post i)) (get i)"
  show ?case
  proof (cases "?att = Some (req, Inr v)")
    case True
    then show ?thesis by (intro exI[of _ i]) simp
  next
    case False
    with Suc.prems have
      "get_sensor_readings parse_obj auth token_again post get again (Suc i) = Some (req, Inr v)"
      by (auto split: option.splits sum.splits if_splits)
    from Suc.IH[OF this] obtain j where "Suc i \<le> j" "j \<le> Suc i + again"
      "get_sensor_readings_attempt parse_obj auth (get_token token_again (post j)) (get j)
         = Some (req, Inr v)"
      by blast
    then show ?thesis by (intro exI[of _ j]) simp
  qed
qed

lemma get_sensor_readings_first:
  "get_sensor_readings_attempt parse_obj auth (get_token token_again (post i)) (get i)
     = Some (req, Inr v) \<Longrightarrow>
   get_sensor_readings parse_obj auth token_again post get again i = Some (req, Inr v)"
  by (cases again) simp_all

lemma fetch_pages_upto:
  assumes k: "1 \<le> k"
    and env: "\<And>i. 1 \<le> i \<Longrightarrow> i < k \<Longrightarrow> decode_page parse_obj (get i) = Inr (Inr (page i))"
    and more: "\<And>i. 1 \<le> i \<Longrightarrow> i < k \<Longrightarrow>
       \<exists>x. map_of (crr_paging (page i)) ''last_page'' = Some (JNum x) \<and> real i < x"
  shows "fetch_pages parse_obj get 1 [] [] =
     fetch_pages parse_obj get k
       (concat (map (\<lambda>i. map snd (crr_readings (page i))) [1..<k])) [1..<k]"
proof -
  have step: "\<And>j. j < k - 1 \<Longrightarrow>
      read_page parse_obj (get (1 + j)) (1 + j)
        = Inr (NextPage (map snd (crr_readings (page (1 + j)))))"
  proof -
    fix j assume "j < k - 1"
    then have b: "1 \<le> 1 + j" "1 + j < k" by simp_all
    from more[OF b] obtain x where
      "map_of (crr_paging (page (1 + j))) ''last_page'' = Some (JNum x)" "real (1 + j) < x"
      by blast
    with read_page_envelope[OF env[OF b], of x "1 + j"]
    show "read_page parse_obj (get (1 + j)) (1 + j)
        = Inr (NextPage (map snd (crr_readings (page (1 + j)))))"
      by simp
  qed
  from fetch_pages_run[of "k - 1" parse_obj get 1 "\<lambda>i. map snd (crr_readings (page i))" "[]" "[]"]
    step k
  show ?thesis by simp
qed



text \<open>
  Claim C10. Let the credentials and the token be there and let the pages before \<open>k\<close> be
  answered by successes with truthy bodies that announce more pages. If the response for
  page \<open>k\<close> is a success whose body parses to a falsy value, \<open>get_sensor_readings\<close> returns
  the text of that body, after requesting the pages 1 to \<open>k\<close>: the readings of the earlier
  pages are not in the result. And whenever \<open>get_sensor_readings\<close> returns a grouping,
  every page requested by the attempt that returned it was a success with a truthy body.
\<close>

theorem get_sensor_readings_falsy_body:
  "(auth = Inr a \<and> get_token token_again (post 0) = Inr t \<and> 1 \<le> k
      \<and> (\<forall>i. 1 \<le> i \<and> i < k \<longrightarrow>
             decode_page parse_obj (get 0 i) = Inr (Inr (page i))
           \<and> (\<exists>x. map_of (crr_paging (page i)) ''last_page'' = Some (JNum x) \<and> real i < x))
      \<and> get 0 k = Response r \<and> is_success r \<and> resp_json r = Some parsed \<and> \<not> truthy parsed
      \<longrightarrow> get_sensor_readings parse_obj auth token_again post get again 0
            = Some ([1..<Suc k], Inr (RawText (resp_text r))))
   \<and> (get_sensor_readings parse_obj auth token_again post get again 0
        = Some (requested, Inr (Grouped g))
      \<longrightarrow> (\<exists>j \<le> again. \<forall>p \<in> set requested. \<exists>r' parsed'.
             get j p = Response r' \<and> is_success r' \<and> resp_json r' = Some parsed'
           \<and> truthy parsed'))"
proof (intro conjI impI)
  assume h: "auth = Inr a \<and> get_token token_again (post 0) = Inr t \<and> 1 \<le> k
      \<and> (\<forall>i. 1 \<le> i \<and> i < k \<longrightarrow>
             decode_page parse_obj (get 0 i) = Inr (Inr (page i))
           \<and> (\<exists>x. map_of (crr_paging (page i)) ''last_page'' = Some (JNum x) \<and> real i < x))
      \<and> get 0 k = Response r \<and> is_success r \<and> resp_json r = Some parsed \<and> \<not> truthy parsed"
  let ?vals = "\<lambda>i. map snd (crr_readings (page i))"
  have upto: "fetch_pages parse_obj (get 0) 1 [] [] =
      fetch_pages parse_obj (get 0) k (concat (map ?vals [1..<k])) [1..<k]"
    using h by (intro fetch_pages_upto) simp_all
  from h have "decode_page parse_obj (get 0 k) = Inr (Inl (resp_text r))"
    by (simp add: decode_page_falsy)
  then have "read_page parse_obj (get 0 k) k = Inr (ReturnText (resp_text r))"
    by (rule read_page_falsy)
  then have "fetch_pages parse_obj (get 0) k (concat (map ?vals [1..<k])) [1..<k]
      = Some ([1..<k] @ [k], Inr (RawText (resp_text r)))"
    by (rule fetch_pages_text)
  with upto h have
    "get_sensor_readings_attempt parse_obj auth (get_token token_again (post 0)) (get 0)
       = Some ([1..<Suc k], Inr (RawText (resp_text r)))"
    by (simp add: get_sensor_readings_attempt_def)
  then show "get_sensor_readings parse_obj auth token_again post get again 0
      = Some ([1..<Suc k], Inr (RawText (resp_text r)))"
    by (rule get_sensor_readings_first)
next
  assume "get_sensor_readings parse_obj auth token_again post get again 0
      = Some (requested, Inr (Grouped g))"
  from get_sensor_readings_result[OF this] obtain j where j: "j \<le> again"
    "get_sensor_readings_attempt parse_obj auth (get_token token_again (post j)) (get j)
       = Some (requested, Inr (Grouped g))"
    by auto
  from get_sensor_readings_attempt_grouped[OF j(2)] decode_page_envelope[of parse_obj]
  have "\<forall>p \<in> set requested. \<exists>r' parsed'.
      get j p = Response r' \<and> is_success r' \<and> resp_json r' = Some parsed' \<and> truthy parsed'"
    by blast
  with j(1) show "\<exists>j \<le> again. \<forall>p \<in> set requested. \<exists>r' parsed'.
      get j p = Response r' \<and> is_success r' \<and> resp_json r' = Some parsed' \<and> truthy parsed'"
    by blast
qed

theorem get_sensor_readings_falsy_body_witness:
  "get_sensor_readings
      (\<lambda>d. Inr \<lparr>crr_readings =
                  [(''c1'', [\<lparr>cr_channel_id = ''c1'', cr_reading = 1, cr_timestamp = 10\<rparr>])],
                crr_paging = [(''last_page'', JNum 2)]\<rparr>)
      (Inr ()) 0
      (\<lambda>a i. Response \<lparr>resp_status_code = 200, resp_text = [],
                 resp_json = Some (JObj [(''data'', JObj [(''token'', JStr ''abc'')])])\<rparr>)
      (\<lambda>a i. if i = 1
             then Response \<lparr>resp_status_code = 200, resp_text = ''page'',
                    resp_json = Some (JObj [(''data'', JNum 1)])\<rparr>
             else Response \<lparr>resp_status_code = 200, resp_text = ''{}'',
                    resp_json = Some (JObj [])\<rparr>)
      0 0
    = Some ([1, 2], Inr (RawText ''{}''))
   \<and> get_sensor_readings
      (\<lambda>d. Inr \<lparr>crr_readings =
                  [(''c1'', [\<lparr>cr_channel_id = ''c1'', cr_reading = 1, cr_timestamp = 10\<rparr>])],
                crr_paging = [(''last_page'', JNum 1)]\<rparr>)
      (Inr ()) 0
      (\<lambda>a i. Response \<lparr>resp_status_code = 200, resp_text = [],
                 resp_json = Some (JObj [(''data'', JObj [(''token'', JStr ''abc'')])])\<rparr>)
      (\<lambda>a i. Response \<lparr>resp_status_code = 200, resp_text = ''page'',
                 resp_json = Some (JObj [(''data'', JNum 1)])\<rparr>)
      0 0
    = Some ([1], Inr (Grouped
        [(10, [\<lparr>cr_channel_id = ''c1'', cr_reading = 1, cr_timestamp = 10\<rparr>])]))
   \<and> (\<exists>j \<le> (0::nat). \<exists>r' parsed'.
        Response \<lparr>resp_status_code = 200, resp_text = ''page'',
                 resp_json = Some (JObj [(''data'', JNum 1)])\<rparr> = Response r'
        \<and> is_success r' \<and> resp_json r' = Some parsed' \<and> truthy parsed')"
proof -
  let ?E = "\<lambda>n. \<lparr>crr_readings =
               [(''c1'', [\<lparr>cr_channel_id = ''c1'', cr_reading = 1, cr_timestamp = 10\<rparr>])],
             crr_paging = [(''last_page'', JNum n)]\<rparr>"
  let ?post = "\<lambda>(a::nat) (i::nat). Response \<lparr>resp_status_code = 200, resp_text = [],
                 resp_json = Some (JObj [(''data'', JObj [(''token'', JStr ''abc'')])])\<rparr>"
  let ?good = "Response \<lparr>resp_status_code = 200, resp_text = ''page'',
                 resp_json = Some (JObj [(''data'', JNum 1)])\<rparr>"
  let ?r = "\<lparr>resp_status_code = 200, resp_text = ''{}'', resp_json = Some (JObj [])\<rparr>"
  let ?get = "\<lambda>(a::nat) (i::nat). if i = 1 then ?good else Response ?r"
  have tok: "get_token 0 (?post 0) = Inr (JStr ''abc'')"
    by (simp add: get_token_def get_token_attempt_def is_success_def dict_getitem_def dict_get_def)
  have first: "get_sensor_readings (\<lambda>d. Inr (?E 2)) (Inr ()) 0 ?post ?get 0 0
      = Some ([1, 2], Inr (RawText ''{}''))"
    using get_sensor_readings_falsy_body[where auth = "Inr ()" and a = "()"
        and parse_obj = "\<lambda>d. Inr (?E 2)" and page = "\<lambda>i. ?E 2" and k = 2 and again = 0
        and get = ?get and post = ?post and token_again = 0 and r = ?r and parsed = "JObj []"
        and t = "JStr ''abc''"] tok
    by (simp add: decode_page_def is_success_def numeral_2_eq_2)
  have "read_page (\<lambda>d. Inr (?E 1)) ?good 1
      = Inr (LastPage (map snd (crr_readings (?E 1))))"
    by (simp add: read_page_def decode_page_def is_success_def dict_getitem_def dict_get_def)
  then have "fetch_pages (\<lambda>d. Inr (?E 1)) (\<lambda>i. ?good) 1 [] []
      = Some ([] @ [1], Inr (Grouped (group_by_timestamp ([] @ map snd (crr_readings (?E 1))))))"
    by (intro fetch_pages_last) simp
  then have second: "get_sensor_readings (\<lambda>d. Inr (?E 1)) (Inr ()) 0 ?post (\<lambda>a i. ?good) 0 0
      = Some ([1], Inr (Grouped
          [(10, [\<lparr>cr_channel_id = ''c1'', cr_reading = 1, cr_timestamp = 10\<rparr>])]))"
    using tok
    by (simp add: get_sensor_readings_attempt_def group_by_timestamp_def append_grouped_def)
  from get_sensor_readings_falsy_body[where auth = "Inr ()"
        and parse_obj = "\<lambda>d. Inr (?E 1)" and again = 0 and get = "\<lambda>a i. ?good"
        and post = ?post and token_again = 0 and requested = "[1]"
        and g = "[(10, [\<lparr>cr_channel_id = ''c1'', cr_reading = 1, cr_timestamp = 10\<rparr>])]"]
    second
  have "\<exists>j \<le> (0::nat). \<exists>r' parsed'. ?good = Response r'
        \<and> is_success r' \<and> resp_json r' = Some parsed' \<and> truthy parsed'"
    by simp
  with first second show ?thesis by simp
qed

section \<open>Properties of \<open>transform\<close>\<close>

lemma reading_channel_None:
  "(reading_channel station_sensor reading = None)
     = (cr_channel_id reading \<notin> ch_id ` set (sn_channels (pc_sensor station_sensor)))"
  by (force simp: reading_channel_def find_None_iff)

lemma transform_readings_unmatched:
  "\<exists>reading \<in> set readings. reading_channel station_sensor reading = None \<Longrightarrow>
     transform_readings str_float str_json station_sensor readings acc = Inl TypeError"
proof (induction readings arbitrary: acc)
  case Nil
  then show ?case by simp
next
  case (Cons reading readings)
  show ?case
  proof (cases "reading_channel station_sensor reading")
    case None
    then show ?thesis by (simp add: reading_channel_def)
  next
    case (Some channel_info)
    with Cons.prems have "\<exists>r \<in> set readings. reading_channel station_sensor r = None" by auto
    from Cons.IH[OF this] Some show ?thesis by (simp add: reading_channel_def)
  qed
qed

lemma transform_readings_matched:
  assumes "\<forall>reading \<in> set readings. reading_channel station_sensor reading \<noteq> None"
    and "distinct (map fst acc)"
  shows "\<exists>res. transform_readings str_float str_json station_sensor readings acc = Inr res
           \<and> distinct (map fst res)
           \<and> set (map fst res) = set (map fst acc)
                \<union> (\<Union>n \<in> set (reading_channel_names station_sensor readings).
                      {n, n @ '' Health''})"
  using assms
proof (induction readings arbitrary: acc)
  case Nil
  then show ?case by (simp add: reading_channel_names_def)
next
  case (Cons reading readings)
  from Cons.prems(1) obtain channel_info where
    ch: "reading_channel station_sensor reading = Some channel_info"
    by auto
  let ?acc = "AList.update (ch_name channel_info @ '' Health'')
               (str_json (dict_get (ch_channel_health channel_info) ''health'') @ ''%'')
               (AList.update (ch_name channel_info)
                  (str_float (cr_reading reading) @ '' '' @
                   (case find (\<lambda>unit. py_str_int (un_id unit) = ch_unit_id channel_info)
                           (pc_units station_sensor) of
                      None \<Rightarrow> [] | Some unit \<Rightarrow> un_unit unit))
                  acc)"
  have step: "transform_readings str_float str_json station_sensor (reading # readings) acc
      = transform_readings str_float str_json station_sensor readings ?acc"
    using ch by (simp add: reading_channel_def)
  have d: "distinct (map fst ?acc)"
    using Cons.prems(2) by (simp add: distinct_update)
  have k: "set (map fst ?acc)
      = set (map fst acc) \<union> {ch_name channel_info, ch_name channel_info @ '' Health''}"
    by (auto simp: update_keys)
  from Cons.prems(1) have "\<forall>r \<in> set readings. reading_channel station_sensor r \<noteq> None"
    by simp
  from Cons.IH[OF this d] obtain res where
    res: "transform_readings str_float str_json station_sensor readings ?acc = Inr res"
      "distinct (map fst res)"
      "set (map fst res) = set (map fst ?acc)
         \<union> (\<Union>n \<in> set (reading_channel_names station_sensor readings). {n, n @ '' Health''})"
    by blast
  have names: "set (reading_channel_names station_sensor (reading # readings))
      = insert (ch_name channel_info) (set (reading_channel_names station_sensor readings))"
    using ch by (auto simp: reading_channel_names_def)
  from res k names step show ?case by auto
qed

lemma card_names_health:
  fixes names :: "string set"
  assumes "finite names"
  shows "card (\<Union>n \<in> names. {n, n @ '' Health''}) \<le> 2 * card names"
    and "\<forall>n \<in> names. n @ '' Health'' \<notin> names \<Longrightarrow>
           card (\<Union>n \<in> names. {n, n @ '' Health''}) = 2 * card names"
proof -
  let ?h = "(\<lambda>n. n @ '' Health'') ` names"
  have eq: "(\<Union>n \<in> names. {n, n @ '' Health''}) = names \<union> ?h" by auto
  have inj: "inj_on (\<lambda>n. n @ '' Health'') names" by (simp add: inj_on_def)
  then have c: "card ?h = card names" by (rule card_image)
  from assms have "card (names \<union> ?h) \<le> card names + card ?h" by (intro card_Un_le)
  with c eq show "card (\<Union>n \<in> names. {n, n @ '' Health''}) \<le> 2 * card names" by simp
  assume "\<forall>n \<in> names. n @ '' Health'' \<notin> names"
  then have "names \<inter> ?h = {}" by auto
  with assms have "card (names \<union> ?h) = card names + card ?h" by (intro card_Un_disjoint) simp_all
  with c eq show "card (\<Union>n \<in> names. {n, n @ '' Health''}) = 2 * card names" by simp
qed


lemma py_str_int_7: "py_str_int 7 = ''7''"
  by (simp add: py_str_int_def nat_digits.simps)

text \<open>
  Claim C9, as stated, fails: with two channels named \<open>Battery\<close> and \<open>Battery Health\<close> and
  one reading for each, all readings have a channel, the distinct channel names are two,
  and the additional map has three entries, not four: the health entry of the first
  channel and the value entry of the second have the same key.
\<close>

theorem transform_two_entries_counterexample:
  "list_all (\<lambda>reading. cr_channel_id reading \<in> ch_id ` set (sn_channels (pc_sensor
      \<lparr>pc_start = 0, pc_stop = 172800000000, pc_project_id = 5,
        pc_station = \<lparr>station_name = ''Ridge'', station_longitude = 1, station_latitude = 2\<rparr>,
        pc_sensor_featured_properties = [],
        pc_sensor = \<lparr>sn_id = ''s1'', sn_name = ''Probe'', sn_channels =
          [\<lparr>ch_id = ''1'', ch_name = ''Battery'', ch_unit_id = ''7'',
             ch_channel_health = [(''health'', JNum 90)]\<rparr>,
           \<lparr>ch_id = ''2'', ch_name = ''Battery Health'', ch_unit_id = ''8'',
             ch_channel_health = [(''health'', JNum 80)]\<rparr>]\<rparr>,
        pc_units = [\<lparr>un_id = 7, un_name = ''volt'', un_unit = ''V''\<rparr>]\<rparr>)))
      [\<lparr>cr_channel_id = ''1'', cr_reading = 12, cr_timestamp = 60\<rparr>,
        \<lparr>cr_channel_id = ''2'', cr_reading = 99, cr_timestamp = 60\<rparr>]
   \<and> reading_channel_names
      \<lparr>pc_start = 0, pc_stop = 172800000000, pc_project_id = 5,
        pc_station = \<lparr>station_name = ''Ridge'', station_longitude = 1, station_latitude = 2\<rparr>,
        pc_sensor_featured_properties = [],
        pc_sensor = \<lparr>sn_id = ''s1'', sn_name = ''Probe'', sn_channels =
          [\<lparr>ch_id = ''1'', ch_name = ''Battery'', ch_unit_id = ''7'',
             ch_channel_health = [(''health'', JNum 90)]\<rparr>,
           \<lparr>ch_id = ''2'', ch_name = ''Battery Health'', ch_unit_id = ''8'',
             ch_channel_health = [(''health'', JNum 80)]\<rparr>]\<rparr>,
        pc_units = [\<lparr>un_id = 7, un_name = ''volt'', un_unit = ''V''\<rparr>]\<rparr>
      [\<lparr>cr_channel_id = ''1'', cr_reading = 12, cr_timestamp = 60\<rparr>,
        \<lparr>cr_channel_id = ''2'', cr_reading = 99, cr_timestamp = 60\<rparr>] = [''Battery'', ''Battery Health'']
   \<and> (\<exists>obs. transform (\<lambda>x. ''12.0'') (\<lambda>j. ''90'')
      \<lparr>pc_start = 0, pc_stop = 172800000000, pc_project_id = 5,
        pc_station = \<lparr>station_name = ''Ridge'', station_longitude = 1, station_latitude = 2\<rparr>,
        pc_sensor_featured_properties = [],
        pc_sensor = \<lparr>sn_id = ''s1'', sn_name = ''Probe'', sn_channels =
          [\<lparr>ch_id = ''1'', ch_name = ''Battery'', ch_unit_id = ''7'',
             ch_channel_health = [(''health'', JNum 90)]\<rparr>,
           \<lparr>ch_id = ''2'', ch_name = ''Battery Health'', ch_unit_id = ''8'',
             ch_channel_health = [(''health'', JNum 80)]\<rparr>]\<rparr>,
        pc_units = [\<lparr>un_id = 7, un_name = ''volt'', un_unit = ''V''\<rparr>]\<rparr>
      60
      [\<lparr>cr_channel_id = ''1'', cr_reading = 12, cr_timestamp = 60\<rparr>,
        \<lparr>cr_channel_id = ''2'', cr_reading = 99, cr_timestamp = 60\<rparr>] = Inr obs
      \<and> map fst (obs_additional obs) = [''Battery'', ''Battery Health'', ''Battery Health Health''])
   \<and> \<not> (\<exists>obs. transform (\<lambda>x. ''12.0'') (\<lambda>j. ''90'')
      \<lparr>pc_start = 0, pc_stop = 172800000000, pc_project_id = 5,
        pc_station = \<lparr>station_name = ''Ridge'', station_longitude = 1, station_latitude = 2\<rparr>,
        pc_sensor_featured_properties = [],
        pc_sensor = \<lparr>sn_id = ''s1'', sn_name = ''Probe'', sn_channels =
          [\<lparr>ch_id = ''1'', ch_name = ''Battery'', ch_unit_id = ''7'',
             ch_channel_health = [(''health'', JNum 90)]\<rparr>,
           \<lparr>ch_id = ''2'', ch_name = ''Battery Health'', ch_unit_id = ''8'',
             ch_channel_health = [(''health'', JNum 80)]\<rparr>]\<rparr>,
        pc_units = [\<lparr>un_id = 7, un_name = ''volt'', un_unit = ''V''\<rparr>]\<rparr>
      60
      [\<lparr>cr_channel_id = ''1'', cr_reading = 12, cr_timestamp = 60\<rparr>,
        \<lparr>cr_channel_id = ''2'', cr_reading = 99, cr_timestamp = 60\<rparr>] = Inr obs
      \<and> length (obs_additional obs) = 2 * length (reading_channel_names
      \<lparr>pc_start = 0, pc_stop = 172800000000, pc_project_id = 5,
        pc_station = \<lparr>station_name = ''Ridge'', station_longitude = 1, station_latitude = 2\<rparr>,
        pc_sensor_featured_properties = [],
        pc_sensor = \<lparr>sn_id = ''s1'', sn_name = ''Probe'', sn_channels =
          [\<lparr>ch_id = ''1'', ch_name = ''Battery'', ch_unit_id = ''7'',
             ch_channel_health = [(''health'', JNum 90)]\<rparr>,
           \<lparr>ch_id = ''2'', ch_name = ''Battery Health'', ch_unit_id = ''8'',
             ch_channel_health = [(''health'', JNum 80)]\<rparr>]\<rparr>,
        pc_units = [\<lparr>un_id = 7, un_name = ''volt'', un_unit = ''V''\<rparr>]\<rparr>
      [\<lparr>cr_channel_id = ''1'', cr_reading = 12, cr_timestamp = 60\<rparr>,
        \<lparr>cr_channel_id = ''2'', cr_reading = 99, cr_timestamp = 60\<rparr>]))"
  by (simp add: transform_def reading_channel_names_def reading_channel_def py_str_int_7)

text \<open>
  Claim C9, amended. If some reading has a \<open>channel_id\<close> that no channel of the sensor
  has, \<open>transform\<close> raises \<open>TypeError\<close>. If every reading has a channel, \<open>transform\<close>
  returns an observation; the keys of its additional map are, for every distinct name \<open>n\<close>
  of a channel of a reading, \<open>n\<close> and \<open>n Health\<close>, each key once; so the map has at most
  two entries for each distinct channel name, and exactly two for each when no such name
  is another such name followed by \<open> Health\<close>.
\<close>

theorem transform_total_on_known_channels:
  "((\<exists>reading \<in> set readings.
        cr_channel_id reading \<notin> ch_id ` set (sn_channels (pc_sensor station_sensor))) \<longrightarrow>
      transform str_float str_json station_sensor timestamp readings = Inl TypeError)
   \<and> ((\<forall>reading \<in> set readings.
        cr_channel_id reading \<in> ch_id ` set (sn_channels (pc_sensor station_sensor))) \<longrightarrow>
      (\<exists>obs. transform str_float str_json station_sensor timestamp readings = Inr obs
         \<and> distinct (map fst (obs_additional obs))
         \<and> set (map fst (obs_additional obs))
             = (\<Union>n \<in> set (reading_channel_names station_sensor readings). {n, n @ '' Health''})
         \<and> length (obs_additional obs)
             \<le> 2 * length (reading_channel_names station_sensor readings)
         \<and> ((\<forall>n \<in> set (reading_channel_names station_sensor readings).
                n @ '' Health'' \<notin> set (reading_channel_names station_sensor readings)) \<longrightarrow>
              length (obs_additional obs)
                = 2 * length (reading_channel_names station_sensor readings))))"
proof (intro conjI impI)
  assume "\<exists>reading \<in> set readings.
      cr_channel_id reading \<notin> ch_id ` set (sn_channels (pc_sensor station_sensor))"
  then have "\<exists>reading \<in> set readings. reading_channel station_sensor reading = None"
    by (simp add: reading_channel_None)
  then show "transform str_float str_json station_sensor timestamp readings = Inl TypeError"
    by (simp add: transform_def transform_readings_unmatched)
next
  let ?names = "reading_channel_names station_sensor readings"
  assume "\<forall>reading \<in> set readings.
      cr_channel_id reading \<in> ch_id ` set (sn_channels (pc_sensor station_sensor))"
  then have "\<forall>reading \<in> set readings. reading_channel station_sensor reading \<noteq> None"
    by (simp add: reading_channel_None)
  from transform_readings_matched[OF this, of "[]" str_float str_json]
  obtain res where res:
    "transform_readings str_float str_json station_sensor readings [] = Inr res"
    "distinct (map fst res)"
    "set (map fst res) = (\<Union>n \<in> set ?names. {n, n @ '' Health''})"
    by auto
  have dn: "distinct ?names" by (simp add: reading_channel_names_def)
  have len: "length res = card (\<Union>n \<in> set ?names. {n, n @ '' Health''})"
    using res(2,3) distinct_card[of "map fst res"] by simp
  have le: "length res \<le> 2 * length ?names"
    using len card_names_health(1)[of "set ?names"] dn distinct_card[of ?names] by simp
  have eq: "(\<forall>n \<in> set ?names. n @ '' Health'' \<notin> set ?names) \<longrightarrow>
      length res = 2 * length ?names"
    using len card_names_health(2)[of "set ?names"] dn distinct_card[of ?names] by simp
  from res le eq
  show "\<exists>obs. transform str_float str_json station_sensor timestamp readings = Inr obs
         \<and> distinct (map fst (obs_additional obs))
         \<and> set (map fst (obs_additional obs))
             = (\<Union>n \<in> set ?names. {n, n @ '' Health''})
         \<and> length (obs_additional obs) \<le> 2 * length ?names
         \<and> ((\<forall>n \<in> set ?names. n @ '' Health'' \<notin> set ?names) \<longrightarrow>
              length (obs_additional obs) = 2 * length ?names)"
    by (simp add: transform_def)
qed

theorem transform_total_on_known_channels_witness:
  "transform (\<lambda>x. ''12.0'') (\<lambda>j. ''90'')
      \<lparr>pc_start = 0, pc_stop = 172800000000, pc_project_id = 5,
        pc_station = \<lparr>station_name = ''Ridge'', station_longitude = 1, station_latitude = 2\<rparr>,
        pc_sensor_featured_properties = [],
        pc_sensor = \<lparr>sn_id = ''s1'', sn_name = ''Probe'', sn_channels =
          [\<lparr>ch_id = ''1'', ch_name = ''Temp'', ch_unit_id = ''7'',
             ch_channel_health = [(''health'', JNum 90)]\<rparr>,
           \<lparr>ch_id = ''2'', ch_name = ''Humidity'', ch_unit_id = ''8'',
             ch_channel_health = [(''health'', JNum 80)]\<rparr>]\<rparr>,
        pc_units = [\<lparr>un_id = 7, un_name = ''volt'', un_unit = ''V''\<rparr>]\<rparr>
      60
      [\<lparr>cr_channel_id = ''1'', cr_reading = 12, cr_timestamp = 60\<rparr>,
        \<lparr>cr_channel_id = ''9'', cr_reading = 99, cr_timestamp = 60\<rparr>] = Inl TypeError
   \<and> (\<exists>obs. transform (\<lambda>x. ''12.0'') (\<lambda>j. ''90'')
      \<lparr>pc_start = 0, pc_stop = 172800000000, pc_project_id = 5,
        pc_station = \<lparr>station_name = ''Ridge'', station_longitude = 1, station_latitude = 2\<rparr>,
        pc_sensor_featured_properties = [],
        pc_sensor = \<lparr>sn_id = ''s1'', sn_name = ''Probe'', sn_channels =
          [\<lparr>ch_id = ''1'', ch_name = ''Temp'', ch_unit_id = ''7'',
             ch_channel_health = [(''health'', JNum 90)]\<rparr>,
           \<lparr>ch_id = ''2'', ch_name = ''Humidity'', ch_unit_id = ''8'',
             ch_channel_health = [(''health'', JNum 80)]\<rparr>]\<rparr>,
        pc_units = [\<lparr>un_id = 7, un_name = ''volt'', un_unit = ''V''\<rparr>]\<rparr>
      60
      [\<lparr>cr_channel_id = ''1'', cr_reading = 12, cr_timestamp = 60\<rparr>,
        \<lparr>cr_channel_id = ''2'', cr_reading = 99, cr_timestamp = 60\<rparr>] = Inr obs
      \<and> set (map fst (obs_additional obs))
          = {''Temp'', ''Temp Health'', ''Humidity'', ''Humidity Health''}
      \<and> length (obs_additional obs) = 4)"
  using
    transform_total_on_known_channels[of
      "[\<lparr>cr_channel_id = ''1'', cr_reading = 12, cr_timestamp = 60\<rparr>,
        \<lparr>cr_channel_id = ''9'', cr_reading = 99, cr_timestamp = 60\<rparr>]"
      "\<lparr>pc_start = 0, pc_stop = 172800000000, pc_project_id = 5,
        pc_station = \<lparr>station_name = ''Ridge'', station_longitude = 1, station_latitude = 2\<rparr>,
        pc_sensor_featured_properties = [],
        pc_sensor = \<lparr>sn_id = ''s1'', sn_name = ''Probe'', sn_channels =
          [\<lparr>ch_id = ''1'', ch_name = ''Temp'', ch_unit_id = ''7'',
             ch_channel_health = [(''health'', JNum 90)]\<rparr>,
           \<lparr>ch_id = ''2'', ch_name = ''Humidity'', ch_unit_id = ''8'',
             ch_channel_health = [(''health'', JNum 80)]\<rparr>]\<rparr>,
        pc_units = [\<lparr>un_id = 7, un_name = ''volt'', un_unit = ''V''\<rparr>]\<rparr>"
      "\<lambda>x. ''12.0''" "\<lambda>j. ''90''" 60]
    transform_total_on_known_channels[of
      "[\<lparr>cr_channel_id = ''1'', cr_reading = 12, cr_timestamp = 60\<rparr>,
        \<lparr>cr_channel_id = ''2'', cr_reading = 99, cr_timestamp = 60\<rparr>]"
      "\<lparr>pc_start = 0, pc_stop = 172800000000, pc_project_id = 5,
        pc_station = \<lparr>station_name = ''Ridge'', station_longitude = 1, station_latitude = 2\<rparr>,
        pc_sensor_featured_properties = [],
        pc_sensor = \<lparr>sn_id = ''s1'', sn_name = ''Probe'', sn_channels =
          [\<lparr>ch_id = ''1'', ch_name = ''Temp'', ch_unit_id = ''7'',
             ch_channel_health = [(''health'', JNum 90)]\<rparr>,
           \<lparr>ch_id = ''2'', ch_name = ''Humidity'', ch_unit_id = ''8'',
             ch_channel_health = [(''health'', JNum 80)]\<rparr>]\<rparr>,
        pc_units = [\<lparr>un_id = 7, un_name = ''volt'', un_unit = ''V''\<rparr>]\<rparr>"
      "\<lambda>x. ''12.0''" "\<lambda>j. ''90''" 60]
  by (auto simp: reading_channel_names_def reading_channel_def)

section \<open>Properties of \<open>action_pull_observations\<close>\<close>

lemma py_replace_Nil: "old \<noteq> [] \<Longrightarrow> py_replace [] old new = []"
  by (subst py_replace.simps) simp

lemma py_replace_hit:
  "old \<noteq> [] \<Longrightarrow> s \<noteq> [] \<Longrightarrow> take (length old) s = old \<Longrightarrow>
     py_replace s old new = new @ py_replace (drop (length old) s) old new"
  by (subst py_replace.simps) simp

lemma py_replace_miss:
  "old \<noteq> [] \<Longrightarrow> take (length old) (c # s) \<noteq> old \<Longrightarrow>
     py_replace (c # s) old new = c # py_replace s old new"
  by (subst py_replace.simps) simp

lemma py_replace_UTC_suffix:
  "CHR ''('' \<notin> set body \<Longrightarrow> py_replace (body @ '' (UTC)'') '' (UTC)'' [] = body"
proof (induction body)
  case Nil
  show ?case by (simp add: py_replace_hit py_replace_Nil)
next
  case (Cons c body)
  have "take (length '' (UTC)'') (c # body @ '' (UTC)'') \<noteq> '' (UTC)''"
  proof (cases body)
    case Nil
    then show ?thesis by simp
  next
    case (Cons b body')
    with Cons.prems have "b \<noteq> CHR ''(''" by auto
    with Cons show ?thesis by simp
  qed
  with Cons show ?case by (simp add: py_replace_miss)
qed

lemma init_without_featured:
  "PullSensorObservationsPerStationConfig_init iv lower upper pid station None sensor units
     = Inl ValidationError"
  by (simp add: PullSensorObservationsPerStationConfig_init_def split: option.splits)

lemma init_sensor:
  "PullSensorObservationsPerStationConfig_init iv lower upper pid station featured sensor units
     = Inr config \<Longrightarrow> pc_sensor config = sensor"
  by (auto simp: PullSensorObservationsPerStationConfig_init_def split: option.splits)

lemma dispatch_windows_effects:
  "dispatch_windows e project station sensor units pairs n w = (res, w') \<Longrightarrow>
     store w' = store w \<and> ticks w' = ticks w \<and>
     (\<exists>configs. trace w' = trace w @
          map (TriggerAction (integration_id e) ''pull_sensor_observations_per_station'') configs
        \<and> list_all (\<lambda>config. pc_sensor config = sensor) configs)"
proof (induction pairs arbitrary: n w)
  case Nil
  then show ?case by auto
next
  case (Cons pair pairs)
  obtain lower upper where pair: "pair = (lower, upper)" by (cases pair)
  show ?case
  proof (cases "PullSensorObservationsPerStationConfig_init (int_validator e) lower upper
                  (prj_id project) station None sensor units")
    case (Inl err)
    with Cons.prems pair show ?thesis by auto
  next
    case (Inr config)
    let ?w = "w\<lparr>trace := trace w @
        [TriggerAction (integration_id e) ''pull_sensor_observations_per_station'' config]\<rparr>"
    from Cons.prems pair Inr have
      "dispatch_windows e project station sensor units pairs (n + 1) ?w = (res, w')"
      by simp
    from Cons.IH[OF this] obtain configs where
      c: "store w' = store ?w" "ticks w' = ticks ?w"
        "trace w' = trace ?w @
           map (TriggerAction (integration_id e) ''pull_sensor_observations_per_station'') configs"
        "list_all (\<lambda>config. pc_sensor config = sensor) configs"
      by blast
    from init_sensor[OF Inr] c(4) have
      "list_all (\<lambda>config. pc_sensor config = sensor) (config # configs)" by simp
    moreover from c(3) have "trace w' = trace w @
        map (TriggerAction (integration_id e) ''pull_sensor_observations_per_station'')
          (config # configs)"
      by simp
    ultimately show ?thesis using c(1,2) by (intro conjI exI[of _ "config # configs"]) simp_all
  qed
qed

lemma process_sensor_saved:
  assumes "process_sensor e action_config now project station units sensor n w = (Inr n', w')"
  shows "\<exists>t configs. latest_time sensor = Inr t
      \<and> trace w' = trace w
          @ [GetState (integration_id e) ''pull_observations'' (sn_id sensor)]
          @ map (TriggerAction (integration_id e) ''pull_sensor_observations_per_station'') configs
          @ [SetState (integration_id e) ''pull_observations'' [(''updated_at'', JStr t)]
               (sn_id sensor)]
      \<and> list_all (\<lambda>config. pc_sensor config = sensor) configs
      \<and> store w' = (store w)((integration_id e, ''pull_observations'', sn_id sensor)
                        \<mapsto> [(''updated_at'', JStr t)])"
proof -
  let ?key = "(integration_id e, ''pull_observations'', sn_id sensor)"
  let ?w1 = "w\<lparr>trace := trace w @
      [GetState (integration_id e) ''pull_observations'' (sn_id sensor)]\<rparr>"
  let ?w2 = "?w1\<lparr>ticks := ticks ?w1 + 1\<rparr>"
  from assms obtain start where
    start: "start_date (dp e) now action_config (store w ?key) = Inr start"
    by (cases "start_date (dp e) now action_config (store w ?key)")
       (auto simp: process_sensor_def Let_def)
  obtain res w3 where
    d: "dispatch_windows e project station sensor units
          (generate_date_pairs start (clock e (ticks ?w1))) n ?w2 = (res, w3)"
    by (cases "dispatch_windows e project station sensor units
          (generate_date_pairs start (clock e (ticks ?w1))) n ?w2")
  from assms start d obtain t where
    t: "res = Inr n'" "latest_time sensor = Inr t"
       "w' = w3\<lparr>store := (store w3)(?key \<mapsto> [(''updated_at'', JStr t)]),
                 trace := trace w3 @
                   [SetState (integration_id e) ''pull_observations''
                      [(''updated_at'', JStr t)] (sn_id sensor)]\<rparr>"
    by (cases res; cases "latest_time sensor") (auto simp: process_sensor_def Let_def)
  from dispatch_windows_effects[OF d] obtain configs where
    c: "store w3 = store ?w2"
       "trace w3 = trace ?w2 @
          map (TriggerAction (integration_id e) ''pull_sensor_observations_per_station'') configs"
       "list_all (\<lambda>config. pc_sensor config = sensor) configs"
    by blast
  from t c show ?thesis by (intro exI[of _ t] exI[of _ configs]) simp
qed

lemma process_sensor_raised:
  assumes "process_sensor e action_config now project station units sensor n w = (Inl err, w')"
  shows "store w' = store w
      \<and> (\<exists>configs. trace w' = trace w
          @ [GetState (integration_id e) ''pull_observations'' (sn_id sensor)]
          @ map (TriggerAction (integration_id e) ''pull_sensor_observations_per_station'') configs
          \<and> list_all (\<lambda>config. pc_sensor config = sensor) configs)"
proof -
  let ?key = "(integration_id e, ''pull_observations'', sn_id sensor)"
  let ?w1 = "w\<lparr>trace := trace w @
      [GetState (integration_id e) ''pull_observations'' (sn_id sensor)]\<rparr>"
  let ?w2 = "?w1\<lparr>ticks := ticks ?w1 + 1\<rparr>"
  show ?thesis
  proof (cases "start_date (dp e) now action_config (store w ?key)")
    case (Inl err')
    with assms have "w' = ?w1" by (simp add: process_sensor_def Let_def)
    then show ?thesis by (intro conjI exI[of _ "[]"]) simp_all
  next
    case (Inr start)
    obtain res w3 where
      d: "dispatch_windows e project station sensor units
            (generate_date_pairs start (clock e (ticks ?w1))) n ?w2 = (res, w3)"
      by (cases "dispatch_windows e project station sensor units
            (generate_date_pairs start (clock e (ticks ?w1))) n ?w2")
    from assms Inr d have "w' = w3"
      by (cases res; cases "latest_time sensor") (auto simp: process_sensor_def Let_def)
    with dispatch_windows_effects[OF d] show ?thesis by auto
  qed
qed

lemma process_sensor_concerns:
  assumes "process_sensor e action_config now project station units sensor n w = (res, w')"
  shows "\<exists>events. trace w' = trace w @ events \<and> list_all (concerns sensor) events"
proof (cases res)
  case (Inl err)
  with process_sensor_raised[of e action_config now project station units sensor n w err w'] assms
  obtain configs where
    "trace w' = trace w
          @ [GetState (integration_id e) ''pull_observations'' (sn_id sensor)]
          @ map (TriggerAction (integration_id e) ''pull_sensor_observations_per_station'') configs"
    "list_all (\<lambda>config. pc_sensor config = sensor) configs"
    by auto
  then show ?thesis
    by (intro exI[of _ "[GetState (integration_id e) ''pull_observations'' (sn_id sensor)]
          @ map (TriggerAction (integration_id e) ''pull_sensor_observations_per_station'') configs"])
       (simp add: list_all_iff)
next
  case (Inr n')
  with process_sensor_saved[of e action_config now project station units sensor n w n' w'] assms
  obtain t configs where
    "trace w' = trace w
          @ [GetState (integration_id e) ''pull_observations'' (sn_id sensor)]
          @ map (TriggerAction (integration_id e) ''pull_sensor_observations_per_station'') configs
          @ [SetState (integration_id e) ''pull_observations'' [(''updated_at'', JStr t)]
               (sn_id sensor)]"
    "list_all (\<lambda>config. pc_sensor config = sensor) configs"
    by auto
  then show ?thesis
    by (intro exI[of _ "[GetState (integration_id e) ''pull_observations'' (sn_id sensor)]
          @ map (TriggerAction (integration_id e) ''pull_sensor_observations_per_station'') configs
          @ [SetState (integration_id e) ''pull_observations'' [(''updated_at'', JStr t)]
               (sn_id sensor)]"])
       (simp add: list_all_iff)
qed

lemma for_each_events:
  assumes "\<forall>x \<in> set xs. \<forall>n w res w'. body x n w = (res, w') \<longrightarrow>
      (\<exists>events. trace w' = trace w @ events \<and> list_all (P x) events)"
    and "for_each body xs n w = (res, w')"
  shows "\<exists>events. trace w' = trace w @ events \<and> list_all (\<lambda>ev. \<exists>x \<in> set xs. P x ev) events"
  using assms
proof (induction xs arbitrary: n w)
  case Nil
  then show ?case by simp
next
  case (Cons x xs)
  obtain r1 w1 where b: "body x n w = (r1, w1)" by (cases "body x n w")
  with Cons.prems(1) obtain ev1 where
    ev1: "trace w1 = trace w @ ev1" "list_all (P x) ev1" by fastforce
  show ?case
  proof (cases r1)
    case (Inl err)
    with Cons.prems(2) b have "w' = w1" by simp
    with ev1 show ?thesis by (intro exI[of _ ev1]) (auto simp: list_all_iff)
  next
    case (Inr n1)
    with Cons.prems(2) b have rest: "for_each body xs n1 w1 = (res, w')" by simp
    from Cons.prems(1) have "\<forall>y \<in> set xs. \<forall>n w res w'. body y n w = (res, w') \<longrightarrow>
        (\<exists>events. trace w' = trace w @ events \<and> list_all (P y) events)"
      by simp
    from Cons.IH[OF this rest] obtain ev2 where
      ev2: "trace w' = trace w1 @ ev2" "list_all (\<lambda>ev. \<exists>y \<in> set xs. P y ev) ev2" by blast
    with ev1 show ?thesis by (intro exI[of _ "ev1 @ ev2"]) (auto simp: list_all_iff)
  qed
qed

lemma dispatch_windows_nonempty:
  "pairs \<noteq> [] \<Longrightarrow>
     dispatch_windows e project station sensor units pairs n w = (Inl ValidationError, w)"
  by (cases pairs) (auto simp: init_without_featured)

lemma gdp_nonempty: "lower < upper \<Longrightarrow> generate_date_pairs lower upper \<noteq> []"
  by (simp add: gdp_cons)

lemma lookback_7_windows:
  "now - 86400000000 < stop \<Longrightarrow> stop \<le> now + 86400000000 \<Longrightarrow>
     length (generate_date_pairs (now - timedelta_days 7) stop) = 4"
  by (simp add: gdp_cons gdp_nil timedelta_days_def MAX_DAYS_PER_QUERY_def)

lemma latest_time_Inr:
  "(latest_time sensor = Inr t)
     = (\<exists>channel channels s. sn_channels sensor = channel # channels
          \<and> map_of (ch_channel_health channel) ''last_reading'' = Some (JStr s)
          \<and> t = py_replace s '' (UTC)'' [])"
  by (auto simp: latest_time_def dict_getitem_def split: list.splits option.splits json.splits)

lemma process_station_events:
  assumes "process_station e action_config now units project station n w = (res, w')"
  shows "\<exists>events. trace w' = trace w @ events
      \<and> list_all (\<lambda>ev. \<exists>sensor \<in> set (stn_sensors station).
            sn_name sensor \<notin> set excluded_names \<and> concerns sensor ev) events"
proof -
  let ?info = "\<lparr>station_name = stn_name station, station_longitude = stn_longitude station,
                 station_latitude = stn_latitude station\<rparr>"
  let ?sensors = "filter (\<lambda>sensor. sn_name sensor \<notin> set excluded_names) (stn_sensors station)"
  from assms have run:
    "for_each (process_sensor e action_config now project ?info units) ?sensors n w = (res, w')"
    by (simp add: process_station_def Let_def)
  have "\<forall>x \<in> set ?sensors. \<forall>n w res w'.
      process_sensor e action_config now project ?info units x n w = (res, w') \<longrightarrow>
      (\<exists>events. trace w' = trace w @ events \<and> list_all (concerns x) events)"
    using process_sensor_concerns by blast
  from for_each_events[OF this run] obtain events where
    "trace w' = trace w @ events"
    "list_all (\<lambda>ev. \<exists>x \<in> set ?sensors. concerns x ev) events"
    by blast
  then show ?thesis by (intro exI[of _ events]) (auto simp: list_all_iff)
qed

lemma process_project_events:
  assumes "process_project e action_config now units project n w = (res, w')"
  shows "\<exists>events. trace w' = trace w @ events
      \<and> list_all (\<lambda>ev. \<exists>station \<in> set (prj_stations project).
            \<exists>sensor \<in> set (stn_sensors station).
              sn_name sensor \<notin> set excluded_names \<and> concerns sensor ev) events"
proof -
  from assms have run:
    "for_each (process_station e action_config now units project) (prj_stations project) n w
       = (res, w')"
    by (simp add: process_project_def)
  have "\<forall>x \<in> set (prj_stations project). \<forall>n w res w'.
      process_station e action_config now units project x n w = (res, w') \<longrightarrow>
      (\<exists>events. trace w' = trace w @ events
         \<and> list_all (\<lambda>ev. \<exists>sensor \<in> set (stn_sensors x).
              sn_name sensor \<notin> set excluded_names \<and> concerns sensor ev) events)"
    using process_station_events by blast
  from for_each_events[OF this run] show ?thesis .
qed

lemma catalog_events:
  assumes "for_each (process_project e action_config now units) projects n w = (res, w')"
  shows "\<exists>events. trace w' = trace w @ events
      \<and> list_all (\<lambda>ev. \<exists>project \<in> set projects. \<exists>station \<in> set (prj_stations project).
            \<exists>sensor \<in> set (stn_sensors station).
              sn_name sensor \<notin> set excluded_names \<and> concerns sensor ev) events"
proof -
  have "\<forall>x \<in> set projects. \<forall>n w res w'.
      process_project e action_config now units x n w = (res, w') \<longrightarrow>
      (\<exists>events. trace w' = trace w @ events
         \<and> list_all (\<lambda>ev. \<exists>station \<in> set (prj_stations x).
              \<exists>sensor \<in> set (stn_sensors station).
                sn_name sensor \<notin> set excluded_names \<and> concerns sensor ev) events)"
    using process_project_events by blast
  from for_each_events[OF this assms] show ?thesis .
qed

lemma for_each_covers:
  assumes "\<forall>x \<in> set xs. \<forall>n w n' w'. body x n w = (Inr n', w') \<longrightarrow>
      (\<exists>events. trace w' = trace w @ events \<and> G x \<subseteq> set events)"
    and "for_each body xs n w = (Inr n', w')"
  shows "\<exists>events. trace w' = trace w @ events \<and> (\<Union>x \<in> set xs. G x) \<subseteq> set events"
  using assms
proof (induction xs arbitrary: n w)
  case Nil
  then show ?case by simp
next
  case (Cons x xs)
  obtain r1 w1 where b: "body x n w = (r1, w1)" by (cases "body x n w")
  with Cons.prems(2) obtain n1 where r1: "r1 = Inr n1" by (cases r1) auto
  with Cons.prems(1) b obtain ev1 where
    ev1: "trace w1 = trace w @ ev1" "G x \<subseteq> set ev1" by fastforce
  from Cons.prems(2) b r1 have rest: "for_each body xs n1 w1 = (Inr n', w')" by simp
  from Cons.prems(1) have "\<forall>y \<in> set xs. \<forall>n w n' w'. body y n w = (Inr n', w') \<longrightarrow>
      (\<exists>events. trace w' = trace w @ events \<and> G y \<subseteq> set events)"
    by simp
  from Cons.IH[OF this rest] obtain ev2 where
    ev2: "trace w' = trace w1 @ ev2" "(\<Union>y \<in> set xs. G y) \<subseteq> set ev2" by blast
  with ev1 show ?case by (intro exI[of _ "ev1 @ ev2"]) auto
qed

lemma for_each_extends:
  assumes "\<forall>x \<in> set xs. \<forall>n w res w'. body x n w = (res, w') \<longrightarrow>
      (\<exists>events. trace w' = trace w @ events)"
    and "for_each body xs n w = (res, w')"
  shows "\<exists>events. trace w' = trace w @ events"
proof -
  from assms(1) have "\<forall>x \<in> set xs. \<forall>n w res w'. body x n w = (res, w') \<longrightarrow>
      (\<exists>events. trace w' = trace w @ events \<and> list_all (\<lambda>ev. True) events)"
    by (simp add: list_all_iff)
  from for_each_events[OF this assms(2)] show ?thesis by blast
qed

lemma process_sensor_looked_up:
  assumes "process_sensor e action_config now project station units sensor n w = (res, w')"
  shows "\<exists>events. trace w' = trace w
      @ GetState (integration_id e) ''pull_observations'' (sn_id sensor) # events"
proof (cases res)
  case (Inl err)
  with process_sensor_raised[of e action_config now project station units sensor n w err w'] assms
  show ?thesis by auto
next
  case (Inr n')
  with process_sensor_saved[of e action_config now project station units sensor n w n' w'] assms
  show ?thesis by auto
qed

lemma process_sensor_both:
  assumes "process_sensor e action_config now project station units sensor n w = (Inr n', w')"
  shows "\<exists>events. trace w' = trace w @ events
      \<and> {GetState (integration_id e) ''pull_observations'' (sn_id sensor)} \<subseteq> set events"
  using process_sensor_looked_up[OF assms] by auto

lemma process_station_filter:
  "process_station e action_config now units project station
     = for_each (process_sensor e action_config now project
          \<lparr>station_name = stn_name station, station_longitude = stn_longitude station,
            station_latitude = stn_latitude station\<rparr> units)
         (filter (\<lambda>sensor. sn_name sensor \<noteq> ''Statistics''
                    \<and> sn_name sensor \<noteq> ''Diagnostic Parameters'') (stn_sensors station))"
  by (simp add: process_station_def excluded_names_def Let_def)

lemma process_station_first:
  assumes "stn_sensors station = skipped @ sensor # rest"
    and "\<forall>s \<in> set skipped. sn_name s = ''Statistics'' \<or> sn_name s = ''Diagnostic Parameters''"
    and "sn_name sensor \<noteq> ''Statistics''" and "sn_name sensor \<noteq> ''Diagnostic Parameters''"
    and "process_station e action_config now units project station n w = (res, w')"
  shows "\<exists>events. trace w' = trace w
      @ GetState (integration_id e) ''pull_observations'' (sn_id sensor) # events"
proof -
  let ?info = "\<lparr>station_name = stn_name station, station_longitude = stn_longitude station,
                 station_latitude = stn_latitude station\<rparr>"
  let ?keep = "\<lambda>sensor. sn_name sensor \<noteq> ''Statistics''
                    \<and> sn_name sensor \<noteq> ''Diagnostic Parameters''"
  let ?body = "process_sensor e action_config now project ?info units"
  from assms(2) have "filter ?keep skipped = []" by (auto simp: filter_empty_conv)
  with assms(1,3,4) have "filter ?keep (stn_sensors station) = sensor # filter ?keep rest"
    by simp
  with assms(5) have run: "for_each ?body (sensor # filter ?keep rest) n w = (res, w')"
    by (simp add: process_station_filter)
  obtain r1 w1 where b: "?body sensor n w = (r1, w1)" by (cases "?body sensor n w")
  from process_sensor_looked_up[OF b] obtain ev1 where
    ev1: "trace w1 = trace w
      @ GetState (integration_id e) ''pull_observations'' (sn_id sensor) # ev1"
    by blast
  show ?thesis
  proof (cases r1)
    case (Inl err)
    with run b have "w' = w1" by simp
    with ev1 show ?thesis by blast
  next
    case (Inr n1)
    with run b have rest: "for_each ?body (filter ?keep rest) n1 w1 = (res, w')" by simp
    have "\<forall>x \<in> set (filter ?keep rest). \<forall>n w res w'. ?body x n w = (res, w') \<longrightarrow>
        (\<exists>events. trace w' = trace w @ events)"
      using process_sensor_looked_up by blast
    from for_each_extends[OF this rest] obtain ev2 where "trace w' = trace w1 @ ev2" by blast
    with ev1 show ?thesis by (intro exI[of _ "ev1 @ ev2"]) simp
  qed
qed

lemma process_station_covers:
  assumes "process_station e action_config now units project station n w = (Inr n', w')"
  shows "\<exists>events. trace w' = trace w @ events
      \<and> (\<Union>sensor \<in> {s \<in> set (stn_sensors station). sn_name s \<noteq> ''Statistics''
                          \<and> sn_name s \<noteq> ''Diagnostic Parameters''}.
            {GetState (integration_id e) ''pull_observations'' (sn_id sensor)}) \<subseteq> set events"
proof -
  let ?info = "\<lparr>station_name = stn_name station, station_longitude = stn_longitude station,
                 station_latitude = stn_latitude station\<rparr>"
  let ?keep = "\<lambda>sensor. sn_name sensor \<noteq> ''Statistics''
                    \<and> sn_name sensor \<noteq> ''Diagnostic Parameters''"
  from assms have run:
    "for_each (process_sensor e action_config now project ?info units)
       (filter ?keep (stn_sensors station)) n w = (Inr n', w')"
    by (simp add: process_station_filter)
  have "\<forall>x \<in> set (filter ?keep (stn_sensors station)). \<forall>n w n' w'.
      process_sensor e action_config now project ?info units x n w = (Inr n', w') \<longrightarrow>
      (\<exists>events. trace w' = trace w @ events
         \<and> {GetState (integration_id e) ''pull_observations'' (sn_id x)} \<subseteq> set events)"
    using process_sensor_both by blast
  from for_each_covers[OF this run] show ?thesis by simp
qed

lemma process_project_covers:
  assumes "process_project e action_config now units project n w = (Inr n', w')"
  shows "\<exists>events. trace w' = trace w @ events
      \<and> (\<Union>station \<in> set (prj_stations project).
           \<Union>sensor \<in> {s \<in> set (stn_sensors station). sn_name s \<noteq> ''Statistics''
                          \<and> sn_name s \<noteq> ''Diagnostic Parameters''}.
            {GetState (integration_id e) ''pull_observations'' (sn_id sensor)}) \<subseteq> set events"
proof -
  from assms have run:
    "for_each (process_station e action_config now units project) (prj_stations project) n w
       = (Inr n', w')"
    by (simp add: process_project_def)
  have "\<forall>x \<in> set (prj_stations project). \<forall>n w n' w'.
      process_station e action_config now units project x n w = (Inr n', w') \<longrightarrow>
      (\<exists>events. trace w' = trace w @ events
         \<and> (\<Union>sensor \<in> {s \<in> set (stn_sensors x). sn_name s \<noteq> ''Statistics''
                          \<and> sn_name s \<noteq> ''Diagnostic Parameters''}.
            {GetState (integration_id e) ''pull_observations'' (sn_id sensor)}) \<subseteq> set events)"
    using process_station_covers by blast
  from for_each_covers[OF this run] show ?thesis .
qed

lemma catalog_covers:
  assumes "for_each (process_project e action_config now units) projects n w = (Inr n', w')"
  shows "\<exists>events. trace w' = trace w @ events
      \<and> (\<Union>project \<in> set projects. \<Union>station \<in> set (prj_stations project).
           \<Union>sensor \<in> {s \<in> set (stn_sensors station). sn_name s \<noteq> ''Statistics''
                          \<and> sn_name s \<noteq> ''Diagnostic Parameters''}.
            {GetState (integration_id e) ''pull_observations'' (sn_id sensor)}) \<subseteq> set events"
proof -
  have "\<forall>x \<in> set projects. \<forall>n w n' w'.
      process_project e action_config now units x n w = (Inr n', w') \<longrightarrow>
      (\<exists>events. trace w' = trace w @ events
         \<and> (\<Union>station \<in> set (prj_stations x).
           \<Union>sensor \<in> {s \<in> set (stn_sensors station). sn_name s \<noteq> ''Statistics''
                          \<and> sn_name s \<noteq> ''Diagnostic Parameters''}.
            {GetState (integration_id e) ''pull_observations'' (sn_id sensor)}) \<subseteq> set events)"
    using process_project_covers by blast
  from for_each_covers[OF this assms] show ?thesis .
qed

text \<open>
  Claim C8. Every call that a run of \<open>action_pull_observations\<close> makes to the state store
  or to the scheduler is made for a sensor of the catalog whose name is neither
  \<open>Statistics\<close> nor \<open>Diagnostic Parameters\<close>, wherever the sensors with these names stand
  in the lists of their stations; a station is processed as if its sensors with these
  names were not there. The names are compared for equality, and every sensor with another
  name is processed: the sensors of a station that are processed are exactly, and in
  order, those whose name is neither of the two; the first of them has its state looked
  up whatever comes before it in the list and however the run ends; and in a run that
  ends without an exception every sensor of the catalog with another name has had its
  state looked up.
\<close>

theorem excluded_sensors_untouched:
  "(action_pull_observations e action_config auth projects w = (res, w') \<longrightarrow>
      (\<exists>events. trace w' = trace w @ events
         \<and> list_all
             (\<lambda>ev. \<exists>catalog project station sensor.
                 projects = Inr (Projects catalog)
               \<and> project \<in> set (pr_projects catalog)
               \<and> station \<in> set (prj_stations project)
               \<and> sensor \<in> set (stn_sensors station)
               \<and> sn_name sensor \<noteq> ''Statistics''
               \<and> sn_name sensor \<noteq> ''Diagnostic Parameters''
               \<and> concerns sensor ev)
             events))
   \<and> (sn_name sensor \<in> set excluded_names)
       = (sn_name sensor = ''Statistics'' \<or> sn_name sensor = ''Diagnostic Parameters'')
   \<and> process_station e action_config now units project station
       = process_station e action_config now units project
           (station\<lparr>stn_sensors :=
              filter (\<lambda>sensor. sn_name sensor \<notin> set excluded_names) (stn_sensors station)\<rparr>)
   \<and> process_station e action_config now units project station
       = for_each (process_sensor e action_config now project
            \<lparr>station_name = stn_name station, station_longitude = stn_longitude station,
              station_latitude = stn_latitude station\<rparr> units)
           (filter (\<lambda>sensor. sn_name sensor \<noteq> ''Statistics''
                      \<and> sn_name sensor \<noteq> ''Diagnostic Parameters'') (stn_sensors station))
   \<and> (stn_sensors stn = skipped @ first # rest
        \<and> list_all (\<lambda>s. sn_name s = ''Statistics'' \<or> sn_name s = ''Diagnostic Parameters'')
             skipped
        \<and> sn_name first \<noteq> ''Statistics'' \<and> sn_name first \<noteq> ''Diagnostic Parameters''
        \<and> process_station e action_config now units project stn na wa = (resa, wa') \<longrightarrow>
          (\<exists>events. trace wa' = trace wa
             @ GetState (integration_id e) ''pull_observations'' (sn_id first) # events))
   \<and> (action_pull_observations e action_config auth (Inr (Projects catalog)) wb = (Inr nb, wb')
        \<and> prj \<in> set (pr_projects catalog) \<and> stnb \<in> set (prj_stations prj)
        \<and> processed \<in> set (stn_sensors stnb)
        \<and> sn_name processed \<noteq> ''Statistics''
        \<and> sn_name processed \<noteq> ''Diagnostic Parameters'' \<longrightarrow>
          GetState (integration_id e) ''pull_observations'' (sn_id processed)
            \<in> set (drop (length (trace wb)) (trace wb')))"
proof (intro conjI impI)
  assume run: "action_pull_observations e action_config auth projects w = (res, w')"
  let ?P = "\<lambda>ev. \<exists>catalog project station sensor.
                 projects = Inr (Projects catalog)
               \<and> project \<in> set (pr_projects catalog)
               \<and> station \<in> set (prj_stations project)
               \<and> sensor \<in> set (stn_sensors station)
               \<and> sn_name sensor \<noteq> ''Statistics''
               \<and> sn_name sensor \<noteq> ''Diagnostic Parameters''
               \<and> concerns sensor ev"
  show "\<exists>events. trace w' = trace w @ events \<and> list_all ?P events"
  proof (cases "\<exists>a catalog. auth = Inr a \<and> projects = Inr (Projects catalog)")
    case False
    with run have "w' = w"
      by (auto simp: action_pull_observations_def split: sum.splits projects_result.splits if_splits)
    then show ?thesis by (intro exI[of _ "[]"]) simp
  next
    case True
    then obtain a catalog where c: "auth = Inr a" "projects = Inr (Projects catalog)" by blast
    let ?wa = "w\<lparr>ticks := ticks w + 1\<rparr>"
    from run c have "for_each (process_project e action_config (clock e (ticks w))
        (pr_units catalog)) (pr_projects catalog) 0 ?wa = (res, w')"
      by (simp add: action_pull_observations_def Let_def)
    from catalog_events[OF this] obtain events where
      ev: "trace w' = trace ?wa @ events"
        "list_all (\<lambda>ev. \<exists>project \<in> set (pr_projects catalog).
            \<exists>station \<in> set (prj_stations project). \<exists>sensor \<in> set (stn_sensors station).
              sn_name sensor \<notin> set excluded_names \<and> concerns sensor ev) events"
      by blast
    from ev(2) c(2) have "list_all ?P events"
      by (auto simp: list_all_iff excluded_names_def) blast
    with ev(1) show ?thesis by (intro exI[of _ events]) simp
  qed
next
  show "(sn_name sensor \<in> set excluded_names)
       = (sn_name sensor = ''Statistics'' \<or> sn_name sensor = ''Diagnostic Parameters'')"
    by (simp add: excluded_names_def)
next
  show "process_station e action_config now units project station
       = process_station e action_config now units project
           (station\<lparr>stn_sensors :=
              filter (\<lambda>sensor. sn_name sensor \<notin> set excluded_names) (stn_sensors station)\<rparr>)"
    by (simp add: process_station_def)
next
  show "process_station e action_config now units project station
       = for_each (process_sensor e action_config now project
            \<lparr>station_name = stn_name station, station_longitude = stn_longitude station,
              station_latitude = stn_latitude station\<rparr> units)
           (filter (\<lambda>sensor. sn_name sensor \<noteq> ''Statistics''
                      \<and> sn_name sensor \<noteq> ''Diagnostic Parameters'') (stn_sensors station))"
    by (rule process_station_filter)
next
  assume h: "stn_sensors stn = skipped @ first # rest
        \<and> list_all (\<lambda>s. sn_name s = ''Statistics'' \<or> sn_name s = ''Diagnostic Parameters'')
             skipped
        \<and> sn_name first \<noteq> ''Statistics'' \<and> sn_name first \<noteq> ''Diagnostic Parameters''
        \<and> process_station e action_config now units project stn na wa = (resa, wa')"
  then have "\<forall>s \<in> set skipped. sn_name s = ''Statistics'' \<or> sn_name s = ''Diagnostic Parameters''"
    by (simp add: list_all_iff)
  with h show "\<exists>events. trace wa' = trace wa
             @ GetState (integration_id e) ''pull_observations'' (sn_id first) # events"
    using process_station_first[of stn skipped first rest e action_config now units project na wa
        resa wa']
    by blast
next
  assume h: "action_pull_observations e action_config auth (Inr (Projects catalog)) wb
          = (Inr nb, wb')
        \<and> prj \<in> set (pr_projects catalog) \<and> stnb \<in> set (prj_stations prj)
        \<and> processed \<in> set (stn_sensors stnb)
        \<and> sn_name processed \<noteq> ''Statistics''
        \<and> sn_name processed \<noteq> ''Diagnostic Parameters''"
  then obtain a where a: "auth = Inr a"
    by (cases auth) (auto simp: action_pull_observations_def)
  let ?w = "wb\<lparr>ticks := ticks wb + 1\<rparr>"
  from h a have "for_each (process_project e action_config (clock e (ticks wb))
        (pr_units catalog)) (pr_projects catalog) 0 ?w = (Inr nb, wb')"
    by (simp add: action_pull_observations_def Let_def)
  from catalog_covers[OF this] obtain events where
    ev: "trace wb' = trace ?w @ events"
      "(\<Union>project \<in> set (pr_projects catalog). \<Union>station \<in> set (prj_stations project).
           \<Union>sensor \<in> {s \<in> set (stn_sensors station). sn_name s \<noteq> ''Statistics''
                          \<and> sn_name s \<noteq> ''Diagnostic Parameters''}.
            {GetState (integration_id e) ''pull_observations'' (sn_id sensor)}) \<subseteq> set events"
    by blast
  from ev(2) h have "GetState (integration_id e) ''pull_observations'' (sn_id processed)
      \<in> set events"
    by blast
  with ev(1) show "GetState (integration_id e) ''pull_observations'' (sn_id processed)
            \<in> set (drop (length (trace wb)) (trace wb'))"
    by simp
qed

theorem excluded_sensors_untouched_witness:
  "action_pull_observations
      \<lparr>integration_id = ''int1'', clock = (\<lambda>n. 1704672000000000 + int n),
        dp = (\<lambda>s. Some \<lparr>pd_wall = 1704672000000010, pd_utcoffset = None\<rparr>),
        int_validator = (\<lambda>s. Some 123)\<rparr>
      \<lparr>default_lookback_days = 7, sensor_featured_properties = None\<rparr> (Inr ())
      (Inr (Projects \<lparr>pr_projects =
         [\<lparr>prj_id = ''123'', prj_name = ''P'', prj_stations =
            [\<lparr>stn_name = ''Station1'', stn_latitude = 2, stn_longitude = 1, stn_sensors =
               [\<lparr>sn_id = ''a'', sn_name = ''Statistics'', sn_channels = []\<rparr>,
                \<lparr>sn_id = ''b'', sn_name = ''statistics'', sn_channels =
                   [\<lparr>ch_id = ''1'', ch_name = ''Temp'', ch_unit_id = ''7'',
                      ch_channel_health = [(''last_reading'', JStr ''t (UTC)'')]\<rparr>]\<rparr>,
                \<lparr>sn_id = ''c'', sn_name = ''Diagnostic Parameters'', sn_channels = []\<rparr>,
                \<lparr>sn_id = ''d'', sn_name = ''Statistics '', sn_channels =
                   [\<lparr>ch_id = ''1'', ch_name = ''Temp'', ch_unit_id = ''7'',
                      ch_channel_health = [(''last_reading'', JStr ''t (UTC)'')]\<rparr>]\<rparr>]\<rparr>]\<rparr>],
         pr_units = []\<rparr>))
      \<lparr>store = (\<lambda>k. Some [(''updated_at'', JStr ''w'')]), trace = [], ticks = 0\<rparr>
     = (Inr 0,
        \<lparr>store = (\<lambda>k. Some [(''updated_at'', JStr ''w'')])
           ((''int1'', ''pull_observations'', ''b'') \<mapsto> [(''updated_at'', JStr ''t'')],
            (''int1'', ''pull_observations'', ''d'') \<mapsto> [(''updated_at'', JStr ''t'')]),
         trace = [GetState ''int1'' ''pull_observations'' ''b'',
                  SetState ''int1'' ''pull_observations'' [(''updated_at'', JStr ''t'')] ''b'',
                  GetState ''int1'' ''pull_observations'' ''d'',
                  SetState ''int1'' ''pull_observations'' [(''updated_at'', JStr ''t'')] ''d''],
         ticks = 3\<rparr>)
   \<and> GetState ''int1'' ''pull_observations'' ''b''
       \<in> set [GetState ''int1'' ''pull_observations'' ''b'',
                SetState ''int1'' ''pull_observations'' [(''updated_at'', JStr ''t'')] ''b'',
                GetState ''int1'' ''pull_observations'' ''d'',
                SetState ''int1'' ''pull_observations'' [(''updated_at'', JStr ''t'')] ''d'']
   \<and> GetState ''int1'' ''pull_observations'' ''d''
       \<in> set [GetState ''int1'' ''pull_observations'' ''b'',
                SetState ''int1'' ''pull_observations'' [(''updated_at'', JStr ''t'')] ''b'',
                GetState ''int1'' ''pull_observations'' ''d'',
                SetState ''int1'' ''pull_observations'' [(''updated_at'', JStr ''t'')] ''d'']
   \<and> list_all (\<lambda>ev. \<not> concerns \<lparr>sn_id = ''a'', sn_name = ''Statistics'', sn_channels = []\<rparr> ev
          \<and> \<not> concerns \<lparr>sn_id = ''c'', sn_name = ''Diagnostic Parameters'', sn_channels = []\<rparr> ev)
        [GetState ''int1'' ''pull_observations'' ''b'',
         SetState ''int1'' ''pull_observations'' [(''updated_at'', JStr ''t'')] ''b'',
         GetState ''int1'' ''pull_observations'' ''d'',
         SetState ''int1'' ''pull_observations'' [(''updated_at'', JStr ''t'')] ''d'']
   \<and> ''statistics'' \<notin> set excluded_names
   \<and> ''Statistics '' \<notin> set excluded_names
   \<and> ''Statistics'' \<in> set excluded_names"
proof -
  let ?e = "\<lparr>integration_id = ''int1'', clock = (\<lambda>n. 1704672000000000 + int n),
             dp = (\<lambda>s. Some \<lparr>pd_wall = 1704672000000010, pd_utcoffset = None\<rparr>),
             int_validator = (\<lambda>s. Some 123)\<rparr>"
  let ?cfg = "\<lparr>default_lookback_days = 7, sensor_featured_properties = None\<rparr>"
  let ?ch = "\<lparr>ch_id = ''1'', ch_name = ''Temp'', ch_unit_id = ''7'',
               ch_channel_health = [(''last_reading'', JStr ''t (UTC)'')]\<rparr>"
  let ?sa = "\<lparr>sn_id = ''a'', sn_name = ''Statistics'', sn_channels = []\<rparr>"
  let ?sb = "\<lparr>sn_id = ''b'', sn_name = ''statistics'', sn_channels = [?ch]\<rparr>"
  let ?sc = "\<lparr>sn_id = ''c'', sn_name = ''Diagnostic Parameters'', sn_channels = []\<rparr>"
  let ?sd = "\<lparr>sn_id = ''d'', sn_name = ''Statistics '', sn_channels = [?ch]\<rparr>"
  let ?stn = "\<lparr>stn_name = ''Station1'', stn_latitude = 2, stn_longitude = 1,
                stn_sensors = [?sa, ?sb, ?sc, ?sd]\<rparr>"
  let ?prj = "\<lparr>prj_id = ''123'', prj_name = ''P'', prj_stations = [?stn]\<rparr>"
  let ?cat = "\<lparr>pr_projects = [?prj], pr_units = []\<rparr>"
  let ?info = "\<lparr>station_name = ''Station1'', station_longitude = 1, station_latitude = 2\<rparr>"
  let ?s0 = "\<lambda>k :: string \<times> string \<times> string. Some [(''updated_at'', JStr ''w'')]"
  let ?s1 = "?s0((''int1'', ''pull_observations'', ''b'') \<mapsto> [(''updated_at'', JStr ''t'')])"
  let ?s2 = "?s1((''int1'', ''pull_observations'', ''d'') \<mapsto> [(''updated_at'', JStr ''t'')])"
  let ?gb = "GetState ''int1'' ''pull_observations'' ''b''"
  let ?wb = "SetState ''int1'' ''pull_observations'' [(''updated_at'', JStr ''t'')] ''b''"
  let ?gd = "GetState ''int1'' ''pull_observations'' ''d''"
  let ?wd = "SetState ''int1'' ''pull_observations'' [(''updated_at'', JStr ''t'')] ''d''"
  let ?w = "\<lparr>store = ?s0, trace = [], ticks = 0\<rparr>"
  let ?w1 = "\<lparr>store = ?s0, trace = [], ticks = 1\<rparr>"
  let ?w2 = "\<lparr>store = ?s1, trace = [?gb, ?wb], ticks = 2\<rparr>"
  let ?w' = "\<lparr>store = ?s2, trace = [?gb, ?wb, ?gd, ?wd], ticks = 3\<rparr>"
  have r: "py_replace ''t (UTC)'' '' (UTC)'' [] = ''t''"
    using py_replace_UTC_suffix[of "''t''"] by simp
  have lb: "latest_time ?sb = Inr ''t''" and ld: "latest_time ?sd = Inr ''t''"
    using r by (simp_all add: latest_time_def dict_getitem_def)
  have sb: "start_date (dp ?e) 1704672000000000 ?cfg
      (store ?w1 (integration_id ?e, ''pull_observations'', sn_id ?sb)) = Inr 1704672000000010"
    by (simp add: start_date_def dict_get_def replace_tzinfo_utc_def)
  have pb: "process_sensor ?e ?cfg 1704672000000000 ?prj ?info [] ?sb 0 ?w1 = (Inr 0, ?w2)"
    unfolding process_sensor_def Let_def sb by (simp add: gdp_nil lb)
  have sd: "start_date (dp ?e) 1704672000000000 ?cfg
      (store ?w2 (integration_id ?e, ''pull_observations'', sn_id ?sd)) = Inr 1704672000000010"
    by (simp add: start_date_def dict_get_def replace_tzinfo_utc_def)
  have pd: "process_sensor ?e ?cfg 1704672000000000 ?prj ?info [] ?sd 0 ?w2 = (Inr 0, ?w')"
    unfolding process_sensor_def Let_def sd by (simp add: gdp_nil ld)
  have st: "process_station ?e ?cfg 1704672000000000 [] ?prj ?stn 0 ?w1 = (Inr 0, ?w')"
    using pb pd by (simp add: process_station_def excluded_names_def)
  have run: "action_pull_observations ?e ?cfg (Inr ()) (Inr (Projects ?cat)) ?w = (Inr 0, ?w')"
    using st by (simp add: action_pull_observations_def process_project_def Let_def)
  note inst = excluded_sensors_untouched[where e = ?e and action_config = ?cfg
      and auth = "Inr ()" and catalog = ?cat and wb = ?w and nb = 0 and wb' = ?w'
      and prj = ?prj and stnb = ?stn]
  have mb: "?gb \<in> set [?gb, ?wb, ?gd, ?wd]"
    using inst[where processed = ?sb] run by simp
  have md: "?gd \<in> set [?gb, ?wb, ?gd, ?wd]"
    using inst[where processed = ?sd] run by simp
  have names: "''statistics'' \<notin> set excluded_names \<and> ''Statistics '' \<notin> set excluded_names
      \<and> ''Statistics'' \<in> set excluded_names"
    by (simp add: excluded_names_def)
  from run mb md names show ?thesis by simp
qed

text \<open>
  Claim C1 on the code: with one project, one station, one sensor named \<open>Sensor1\<close>, no
  stored state and a lookback of 7 days, the range of the sensor has four windows, but
  the run ends with pydantic's \<open>ValidationError\<close> when the configuration of the first
  sub-task is built (the required field \<open>sensor_featured_properties\<close> is not passed):
  the only call made is the state lookup, no sub-task is triggered and no state is
  written.
\<close>

theorem pull_observations_one_sensor_raises:
  "PullObservationsConfig_parse None None
     = Inr \<lparr>default_lookback_days = 7, sensor_featured_properties = None\<rparr>
   \<and> length (generate_date_pairs (1704672000000000 - timedelta_days 7) 1704672000000001) = 4
   \<and> action_pull_observations
      \<lparr>integration_id = ''int1'', clock = (\<lambda>n. 1704672000000000 + int n), dp = (\<lambda>s. None),
        int_validator = (\<lambda>s. Some 123)\<rparr>
      \<lparr>default_lookback_days = 7, sensor_featured_properties = None\<rparr> (Inr ())
      (Inr (Projects \<lparr>pr_projects =
         [\<lparr>prj_id = ''123'', prj_name = ''P'', prj_stations =
            [\<lparr>stn_name = ''Station1'', stn_latitude = 2, stn_longitude = 1, stn_sensors =
               [\<lparr>sn_id = ''sensor1'', sn_name = ''Sensor1'', sn_channels =
                  [\<lparr>ch_id = ''1'', ch_name = ''Temp'', ch_unit_id = ''7'',
                     ch_channel_health =
                       [(''last_reading'', JStr ''2024-01-01 00:00:00 (UTC)'')]\<rparr>]\<rparr>]\<rparr>]\<rparr>],
         pr_units = []\<rparr>))
      \<lparr>store = (\<lambda>k. None), trace = [], ticks = 0\<rparr>
     = (Inl ValidationError,
        \<lparr>store = (\<lambda>k. None), trace = [GetState ''int1'' ''pull_observations'' ''sensor1''],
          ticks = 2\<rparr>)"
proof -
  let ?e = "\<lparr>integration_id = ''int1'', clock = (\<lambda>n. 1704672000000000 + int n),
             dp = (\<lambda>s. None), int_validator = (\<lambda>s. Some 123)\<rparr>"
  let ?cfg = "\<lparr>default_lookback_days = 7, sensor_featured_properties = None\<rparr>"
  let ?sensor = "\<lparr>sn_id = ''sensor1'', sn_name = ''Sensor1'', sn_channels =
                  [\<lparr>ch_id = ''1'', ch_name = ''Temp'', ch_unit_id = ''7'',
                     ch_channel_health =
                       [(''last_reading'', JStr ''2024-01-01 00:00:00 (UTC)'')]\<rparr>]\<rparr>"
  let ?project = "\<lparr>prj_id = ''123'', prj_name = ''P'', prj_stations =
            [\<lparr>stn_name = ''Station1'', stn_latitude = 2, stn_longitude = 1, stn_sensors =
               [?sensor]\<rparr>]\<rparr>"
  let ?info = "\<lparr>station_name = ''Station1'', station_longitude = 1, station_latitude = 2\<rparr>"
  let ?w1 = "\<lparr>store = (\<lambda>k. None), trace = [], ticks = 1\<rparr>"
  let ?w2 = "\<lparr>store = (\<lambda>k. None), trace = [GetState ''int1'' ''pull_observations'' ''sensor1''],
          ticks = 2\<rparr>"
  have four: "length (generate_date_pairs (1704672000000000 - timedelta_days 7) 1704672000000001) = 4"
    by (rule lookback_7_windows) simp_all
  then have ne: "generate_date_pairs (1704672000000000 - timedelta_days 7) 1704672000000001 \<noteq> []"
    by auto
  have sd: "start_date (dp ?e) 1704672000000000 ?cfg
      (store ?w1 (integration_id ?e, ''pull_observations'', sn_id ?sensor))
      = Inr (1704672000000000 - timedelta_days 7)"
    by (simp add: start_date_def)
  have ps: "process_sensor ?e ?cfg 1704672000000000 ?project ?info [] ?sensor 0 ?w1
      = (Inl ValidationError, ?w2)"
    unfolding process_sensor_def Let_def sd
    using dispatch_windows_nonempty[OF ne] by simp
  have "action_pull_observations ?e ?cfg (Inr ()) (Inr (Projects \<lparr>pr_projects = [?project],
         pr_units = []\<rparr>)) \<lparr>store = (\<lambda>k. None), trace = [], ticks = 0\<rparr>
     = (Inl ValidationError, ?w2)"
    using ps
    by (simp add: action_pull_observations_def process_project_def process_station_def
          excluded_names_def Let_def)
  with four show ?thesis by (simp add: PullObservationsConfig_parse_def)
qed


lemma parse_time_string_aware:
  "pd_utcoffset v = Some offset \<Longrightarrow> parse_time_string v = v"
  by (simp add: parse_time_string_def)


text \<open>
  Claim C5 on the code. With a watermark one day old stored for the sensor, one window is
  due, and the value to persist after it is the \<open>last_reading\<close> of the first channel
  without its suffix, \<open>2024-01-08 00:00:00\<close>. The run ends with pydantic's
  \<open>ValidationError\<close> when the configuration of that window is built (the required field
  \<open>sensor_featured_properties\<close> is not passed): the state store is as it was, and the
  only call made is the lookup.
\<close>

theorem watermark_not_saved_after_windows:
  "generate_date_pairs 1704585600000000 1704672000000001
     = [(1704585600000000, 1704672000000001)]
   \<and> latest_time \<lparr>sn_id = ''sensor1'', sn_name = ''Sensor1'', sn_channels =
        [\<lparr>ch_id = ''1'', ch_name = ''Temp'', ch_unit_id = ''7'',
           ch_channel_health = [(''last_reading'', JStr ''2024-01-08 00:00:00 (UTC)'')]\<rparr>]\<rparr>
     = Inr ''2024-01-08 00:00:00''
   \<and> action_pull_observations
      \<lparr>integration_id = ''int1'', clock = (\<lambda>n. 1704672000000000 + int n),
        dp = (\<lambda>s. Some \<lparr>pd_wall = 1704585600000000, pd_utcoffset = None\<rparr>),
        int_validator = (\<lambda>s. Some 123)\<rparr>
      \<lparr>default_lookback_days = 7, sensor_featured_properties = None\<rparr> (Inr ())
      (Inr (Projects \<lparr>pr_projects =
         [\<lparr>prj_id = ''123'', prj_name = ''P'', prj_stations =
            [\<lparr>stn_name = ''Station1'', stn_latitude = 2, stn_longitude = 1, stn_sensors =
               [\<lparr>sn_id = ''sensor1'', sn_name = ''Sensor1'', sn_channels =
                  [\<lparr>ch_id = ''1'', ch_name = ''Temp'', ch_unit_id = ''7'',
                     ch_channel_health =
                       [(''last_reading'', JStr ''2024-01-08 00:00:00 (UTC)'')]\<rparr>]\<rparr>]\<rparr>]\<rparr>],
         pr_units = []\<rparr>))
      \<lparr>store = [(''int1'', ''pull_observations'', ''sensor1'')
                  \<mapsto> [(''updated_at'', JStr ''2024-01-07 00:00:00'')]],
        trace = [], ticks = 0\<rparr>
     = (Inl ValidationError,
        \<lparr>store = [(''int1'', ''pull_observations'', ''sensor1'')
                  \<mapsto> [(''updated_at'', JStr ''2024-01-07 00:00:00'')]],
          trace = [GetState ''int1'' ''pull_observations'' ''sensor1''], ticks = 2\<rparr>)"
proof -
  let ?d = "\<lparr>pd_wall = 1704585600000000, pd_utcoffset = None\<rparr>"
  let ?e = "\<lparr>integration_id = ''int1'', clock = (\<lambda>n. 1704672000000000 + int n),
             dp = (\<lambda>s. Some ?d), int_validator = (\<lambda>s. Some 123)\<rparr>"
  let ?cfg = "\<lparr>default_lookback_days = 7, sensor_featured_properties = None\<rparr>"
  let ?sensor = "\<lparr>sn_id = ''sensor1'', sn_name = ''Sensor1'', sn_channels =
                  [\<lparr>ch_id = ''1'', ch_name = ''Temp'', ch_unit_id = ''7'',
                     ch_channel_health =
                       [(''last_reading'', JStr ''2024-01-08 00:00:00 (UTC)'')]\<rparr>]\<rparr>"
  let ?stn = "\<lparr>stn_name = ''Station1'', stn_latitude = 2, stn_longitude = 1,
                stn_sensors = [?sensor]\<rparr>"
  let ?prj = "\<lparr>prj_id = ''123'', prj_name = ''P'', prj_stations = [?stn]\<rparr>"
  let ?info = "\<lparr>station_name = ''Station1'', station_longitude = 1, station_latitude = 2\<rparr>"
  let ?s0 = "[(''int1'', ''pull_observations'', ''sensor1'')
                \<mapsto> [(''updated_at'', JStr ''2024-01-07 00:00:00'')]]"
  let ?w1 = "\<lparr>store = ?s0, trace = [], ticks = 1\<rparr>"
  let ?w' = "\<lparr>store = ?s0, trace = [GetState ''int1'' ''pull_observations'' ''sensor1''],
               ticks = 2\<rparr>"
  have due: "generate_date_pairs 1704585600000000 1704672000000001
      = [(1704585600000000, 1704672000000001)]"
    by (simp add: gdp_cons gdp_nil timedelta_days_def MAX_DAYS_PER_QUERY_def)
  have "py_replace ''2024-01-08 00:00:00 (UTC)'' '' (UTC)'' [] = ''2024-01-08 00:00:00''"
    using py_replace_UTC_suffix[of "''2024-01-08 00:00:00''"] by simp
  then have lt: "latest_time ?sensor = Inr ''2024-01-08 00:00:00''"
    by (simp add: latest_time_def dict_getitem_def)
  have sd: "start_date (dp ?e) 1704672000000000 ?cfg
      (store ?w1 (integration_id ?e, ''pull_observations'', sn_id ?sensor))
      = Inr 1704585600000000"
    by (simp add: start_date_def dict_get_def replace_tzinfo_utc_def)
  have ps: "process_sensor ?e ?cfg 1704672000000000 ?prj ?info [] ?sensor 0 ?w1
      = (Inl ValidationError, ?w')"
    unfolding process_sensor_def Let_def sd
    by (simp add: due init_without_featured)
  have run: "action_pull_observations ?e ?cfg (Inr ()) (Inr (Projects \<lparr>pr_projects = [?prj],
         pr_units = []\<rparr>)) \<lparr>store = ?s0, trace = [], ticks = 0\<rparr>
      = (Inl ValidationError, ?w')"
    using ps
    by (simp add: action_pull_observations_def process_project_def process_station_def
          excluded_names_def Let_def)
  from due lt run show ?thesis by simp
qed

end
